theory Spec2Isabelle
  imports Main "HOL-Library.Word" "HOL-Library.Signed_Division"
begin

unbundle bit_operations_syntax

section \<open>Machine words and bit-fields (instructions.h)\<close>

text \<open>
  The source views one 32-bit instruction word through a union of packed bit-field
  structs. The fields of every struct add up to 32 bits and are allocated from the least
  significant bit upwards (the layout of the little-endian targets the project builds
  for, which is also the layout of the AArch64 encoding itself). A field that starts at
  bit \<open>lo\<close> and is \<open>len\<close> bits wide is read with \<open>bitfield\<close> and assigned with
  \<open>set_bitfield\<close>; an assignment keeps the low \<open>len\<close> bits of the assigned value,
  as C does for an unsigned bit-field.
\<close>

type_synonym word32 = "32 word"
type_synonym double_word = "64 word"

definition bitfield :: "word32 \<Rightarrow> nat \<Rightarrow> nat \<Rightarrow> word32" where
  "bitfield inst lo len = take_bit len (drop_bit lo inst)"

definition field_mask :: "nat \<Rightarrow> nat \<Rightarrow> word32" where
  "field_mask lo len = push_bit lo (mask len)"

definition set_bitfield :: "word32 \<Rightarrow> nat \<Rightarrow> nat \<Rightarrow> word32 \<Rightarrow> word32" where
  "set_bitfield inst lo len v =
     (inst AND NOT (field_mask lo len)) OR push_bit lo (take_bit len v)"

text \<open>GeneralDpImm, GeneralDpReg, GeneralDT, GeneralBranch.\<close>

definition gen_dp_imm_op0 :: "word32 \<Rightarrow> word32" where
  "gen_dp_imm_op0 inst = bitfield inst 26 3"

definition gen_dp_reg_op0 :: "word32 \<Rightarrow> word32" where
  "gen_dp_reg_op0 inst = bitfield inst 25 3"

definition gen_dt_op0_2 :: "word32 \<Rightarrow> word32" where
  "gen_dt_op0_2 inst = bitfield inst 25 1"

definition gen_dt_op0_1 :: "word32 \<Rightarrow> word32" where
  "gen_dt_op0_1 inst = bitfield inst 27 1"

definition gen_branch_op0 :: "word32 \<Rightarrow> word32" where
  "gen_branch_op0 inst = bitfield inst 26 3"

text \<open>ImmArith.\<close>

definition imm_arith_rd :: "word32 \<Rightarrow> word32" where
  "imm_arith_rd inst = bitfield inst 0 5"

definition imm_arith_rn :: "word32 \<Rightarrow> word32" where
  "imm_arith_rn inst = bitfield inst 5 5"

definition imm_arith_imm12 :: "word32 \<Rightarrow> word32" where
  "imm_arith_imm12 inst = bitfield inst 10 12"

definition imm_arith_sh :: "word32 \<Rightarrow> word32" where
  "imm_arith_sh inst = bitfield inst 22 1"

definition imm_arith_opi :: "word32 \<Rightarrow> word32" where
  "imm_arith_opi inst = bitfield inst 23 3"

definition imm_arith_opc_flag :: "word32 \<Rightarrow> word32" where
  "imm_arith_opc_flag inst = bitfield inst 29 1"

definition imm_arith_opc_op :: "word32 \<Rightarrow> word32" where
  "imm_arith_opc_op inst = bitfield inst 30 1"

definition imm_arith_sf :: "word32 \<Rightarrow> word32" where
  "imm_arith_sf inst = bitfield inst 31 1"

text \<open>ImmWide.\<close>

definition imm_wide_rd :: "word32 \<Rightarrow> word32" where
  "imm_wide_rd inst = bitfield inst 0 5"

definition imm_wide_imm16 :: "word32 \<Rightarrow> word32" where
  "imm_wide_imm16 inst = bitfield inst 5 16"

definition imm_wide_hw :: "word32 \<Rightarrow> word32" where
  "imm_wide_hw inst = bitfield inst 21 2"

definition imm_wide_opi :: "word32 \<Rightarrow> word32" where
  "imm_wide_opi inst = bitfield inst 23 3"

definition imm_wide_opc :: "word32 \<Rightarrow> word32" where
  "imm_wide_opc inst = bitfield inst 29 2"

definition imm_wide_sf :: "word32 \<Rightarrow> word32" where
  "imm_wide_sf inst = bitfield inst 31 1"

text \<open>RegArith and RegLogic (they differ in the top three bits only).\<close>

definition reg_arith_rd :: "word32 \<Rightarrow> word32" where
  "reg_arith_rd inst = bitfield inst 0 5"

definition reg_arith_rn :: "word32 \<Rightarrow> word32" where
  "reg_arith_rn inst = bitfield inst 5 5"

definition reg_arith_operand :: "word32 \<Rightarrow> word32" where
  "reg_arith_operand inst = bitfield inst 10 6"

definition reg_arith_rm :: "word32 \<Rightarrow> word32" where
  "reg_arith_rm inst = bitfield inst 16 5"

definition reg_arith_shift :: "word32 \<Rightarrow> word32" where
  "reg_arith_shift inst = bitfield inst 22 2"

definition reg_arith_id :: "word32 \<Rightarrow> word32" where
  "reg_arith_id inst = bitfield inst 24 1"

definition reg_arith_opc_flag :: "word32 \<Rightarrow> word32" where
  "reg_arith_opc_flag inst = bitfield inst 29 1"

definition reg_arith_opc_op :: "word32 \<Rightarrow> word32" where
  "reg_arith_opc_op inst = bitfield inst 30 1"

definition reg_arith_sf :: "word32 \<Rightarrow> word32" where
  "reg_arith_sf inst = bitfield inst 31 1"

definition reg_logic_rd :: "word32 \<Rightarrow> word32" where
  "reg_logic_rd inst = bitfield inst 0 5"

definition reg_logic_rn :: "word32 \<Rightarrow> word32" where
  "reg_logic_rn inst = bitfield inst 5 5"

definition reg_logic_operand :: "word32 \<Rightarrow> word32" where
  "reg_logic_operand inst = bitfield inst 10 6"

definition reg_logic_rm :: "word32 \<Rightarrow> word32" where
  "reg_logic_rm inst = bitfield inst 16 5"

definition reg_logic_N :: "word32 \<Rightarrow> word32" where
  "reg_logic_N inst = bitfield inst 21 1"

definition reg_logic_shift :: "word32 \<Rightarrow> word32" where
  "reg_logic_shift inst = bitfield inst 22 2"

definition reg_logic_id :: "word32 \<Rightarrow> word32" where
  "reg_logic_id inst = bitfield inst 24 1"

definition reg_logic_opc :: "word32 \<Rightarrow> word32" where
  "reg_logic_opc inst = bitfield inst 29 2"

definition reg_logic_sf :: "word32 \<Rightarrow> word32" where
  "reg_logic_sf inst = bitfield inst 31 1"

text \<open>RegMultiply.\<close>

definition reg_multiply_rd :: "word32 \<Rightarrow> word32" where
  "reg_multiply_rd inst = bitfield inst 0 5"

definition reg_multiply_rn :: "word32 \<Rightarrow> word32" where
  "reg_multiply_rn inst = bitfield inst 5 5"

definition reg_multiply_ra :: "word32 \<Rightarrow> word32" where
  "reg_multiply_ra inst = bitfield inst 10 5"

definition reg_multiply_x :: "word32 \<Rightarrow> word32" where
  "reg_multiply_x inst = bitfield inst 15 1"

definition reg_multiply_rm :: "word32 \<Rightarrow> word32" where
  "reg_multiply_rm inst = bitfield inst 16 5"

definition reg_multiply_M :: "word32 \<Rightarrow> word32" where
  "reg_multiply_M inst = bitfield inst 28 1"

definition reg_multiply_sf :: "word32 \<Rightarrow> word32" where
  "reg_multiply_sf inst = bitfield inst 31 1"

text \<open>DTImmOffset, DTRegOffset, DTLoadLiteral, DTPrePostIndex.\<close>

definition dt_imm_offset_rt :: "word32 \<Rightarrow> word32" where
  "dt_imm_offset_rt inst = bitfield inst 0 5"

definition dt_imm_offset_xn :: "word32 \<Rightarrow> word32" where
  "dt_imm_offset_xn inst = bitfield inst 5 5"

definition dt_imm_offset_imm12 :: "word32 \<Rightarrow> word32" where
  "dt_imm_offset_imm12 inst = bitfield inst 10 12"

definition dt_imm_offset_L :: "word32 \<Rightarrow> word32" where
  "dt_imm_offset_L inst = bitfield inst 22 1"

definition dt_imm_offset_U :: "word32 \<Rightarrow> word32" where
  "dt_imm_offset_U inst = bitfield inst 24 1"

definition dt_imm_offset_sf :: "word32 \<Rightarrow> word32" where
  "dt_imm_offset_sf inst = bitfield inst 30 1"

definition dt_reg_offset_rt :: "word32 \<Rightarrow> word32" where
  "dt_reg_offset_rt inst = bitfield inst 0 5"

definition dt_reg_offset_xn :: "word32 \<Rightarrow> word32" where
  "dt_reg_offset_xn inst = bitfield inst 5 5"

definition dt_reg_offset_xm :: "word32 \<Rightarrow> word32" where
  "dt_reg_offset_xm inst = bitfield inst 16 5"

definition dt_reg_offset_id2 :: "word32 \<Rightarrow> word32" where
  "dt_reg_offset_id2 inst = bitfield inst 21 1"

definition dt_reg_offset_L :: "word32 \<Rightarrow> word32" where
  "dt_reg_offset_L inst = bitfield inst 22 1"

definition dt_reg_offset_sf :: "word32 \<Rightarrow> word32" where
  "dt_reg_offset_sf inst = bitfield inst 30 1"

definition dt_load_literal_rt :: "word32 \<Rightarrow> word32" where
  "dt_load_literal_rt inst = bitfield inst 0 5"

definition dt_load_literal_simm19 :: "word32 \<Rightarrow> word32" where
  "dt_load_literal_simm19 inst = bitfield inst 5 19"

definition dt_load_literal_sf :: "word32 \<Rightarrow> word32" where
  "dt_load_literal_sf inst = bitfield inst 30 1"

definition dt_load_literal_id :: "word32 \<Rightarrow> word32" where
  "dt_load_literal_id inst = bitfield inst 31 1"

definition dt_pre_post_index_rt :: "word32 \<Rightarrow> word32" where
  "dt_pre_post_index_rt inst = bitfield inst 0 5"

definition dt_pre_post_index_xn :: "word32 \<Rightarrow> word32" where
  "dt_pre_post_index_xn inst = bitfield inst 5 5"

definition dt_pre_post_index_I :: "word32 \<Rightarrow> word32" where
  "dt_pre_post_index_I inst = bitfield inst 11 1"

definition dt_pre_post_index_simm9 :: "word32 \<Rightarrow> word32" where
  "dt_pre_post_index_simm9 inst = bitfield inst 12 9"

definition dt_pre_post_index_L :: "word32 \<Rightarrow> word32" where
  "dt_pre_post_index_L inst = bitfield inst 22 1"

definition dt_pre_post_index_sf :: "word32 \<Rightarrow> word32" where
  "dt_pre_post_index_sf inst = bitfield inst 30 1"

text \<open>BranchUncond, BranchCond, BranchReg.\<close>

definition branch_unconditional_simm26 :: "word32 \<Rightarrow> word32" where
  "branch_unconditional_simm26 inst = bitfield inst 0 26"

definition branch_unconditional_id :: "word32 \<Rightarrow> word32" where
  "branch_unconditional_id inst = bitfield inst 30 2"

definition branch_conditional_cond :: "word32 \<Rightarrow> word32" where
  "branch_conditional_cond inst = bitfield inst 0 4"

definition branch_conditional_simm19 :: "word32 \<Rightarrow> word32" where
  "branch_conditional_simm19 inst = bitfield inst 5 19"

definition branch_conditional_id :: "word32 \<Rightarrow> word32" where
  "branch_conditional_id inst = bitfield inst 30 2"

definition branch_register_xn :: "word32 \<Rightarrow> word32" where
  "branch_register_xn inst = bitfield inst 5 5"

text \<open>The decoding patterns of \<open>enum InstTypePatterns\<close> and the other enums.\<close>

definition ITP_DP_IMM :: word32 where "ITP_DP_IMM = 4"
definition ITP_IMM_ARITH :: word32 where "ITP_IMM_ARITH = 2"
definition ITP_WIDE_MOVE :: word32 where "ITP_WIDE_MOVE = 5"
definition ITP_DP_REG :: word32 where "ITP_DP_REG = 5"
definition ITP_REG_MULTIPLY :: word32 where "ITP_REG_MULTIPLY = 1"
definition ITP_REG_ARITH :: word32 where "ITP_REG_ARITH = 1"
definition ITP_REG_LOGIC :: word32 where "ITP_REG_LOGIC = 0"
definition ITP_DT_1 :: word32 where "ITP_DT_1 = 1"
definition ITP_DT_2 :: word32 where "ITP_DT_2 = 0"
definition ITP_DT_LOAD_LITERAL :: word32 where "ITP_DT_LOAD_LITERAL = 0"
definition ITP_DT_IMM_OFFSET :: word32 where "ITP_DT_IMM_OFFSET = 1"
definition ITP_DT_REGISTER_OFFSET :: word32 where "ITP_DT_REGISTER_OFFSET = 1"
definition ITP_DT_PRE_INDEX :: word32 where "ITP_DT_PRE_INDEX = 1"
definition ITP_BRANCH :: word32 where "ITP_BRANCH = 5"
definition ITP_BRANCH_UNCOND :: word32 where "ITP_BRANCH_UNCOND = 0"
definition ITP_BRANCH_COND :: word32 where "ITP_BRANCH_COND = 1"

definition ITP_EQ :: word32 where "ITP_EQ = 0"
definition ITP_NE :: word32 where "ITP_NE = 1"
definition ITP_GE :: word32 where "ITP_GE = 10"
definition ITP_LT :: word32 where "ITP_LT = 11"
definition ITP_GT :: word32 where "ITP_GT = 12"
definition ITP_LE :: word32 where "ITP_LE = 13"
definition ITP_AL :: word32 where "ITP_AL = 14"

definition ITP_MOVN :: word32 where "ITP_MOVN = 0"
definition ITP_MOVZ :: word32 where "ITP_MOVZ = 2"
definition ITP_MOVK :: word32 where "ITP_MOVK = 3"

definition ITP_AND :: word32 where "ITP_AND = 0"
definition ITP_OR :: word32 where "ITP_OR = 1"
definition ITP_XOR :: word32 where "ITP_XOR = 2"
definition ITP_AND_W_FLAGS :: word32 where "ITP_AND_W_FLAGS = 3"

definition ITP_LSL :: word32 where "ITP_LSL = 0"
definition ITP_LSR :: word32 where "ITP_LSR = 1"
definition ITP_ASR :: word32 where "ITP_ASR = 2"
definition ITP_ROR :: word32 where "ITP_ROR = 3"

definition HALT_INSTRUCTION :: word32 where "HALT_INSTRUCTION = 0x8a000000"
definition INSTR_SIZE :: nat where "INSTR_SIZE = 4"

section \<open>Errors\<close>

text \<open>
  Every \<open>exit(EXIT_FAILURE)\<close> and every failed \<open>assert_msg\<close> (which aborts) of the
  source ends the process; the model returns the corresponding error value instead of a
  state.
\<close>

datatype error =
    WordOutOfBounds word32
  | DoubleWordOutOfBounds word32
  | RegisterDoesNotExist word32
  | UnknownInstruction word32 double_word
  | NotABranchLiteral word32
  | MultipleDefinitions word32 word32
  | IndexOutOfBounds nat nat
  | InputFileTooLarge
  | NullString
  | NullPointerDereference
  | NotEnoughArguments nat nat
  | InvalidRegister string
  | UnknownShiftName string
  | UnknownBranchCondition string
  | NotABranchConditionInstruction string
  | UnknownDirective
  | UnknownOperand string
  | UnknownLoadStoreType string
  | UnknownBranchType string
  | NotALabel string
  | NotImplemented string
  | TooManyOperands nat

definition bind_err :: "error + 'a \<Rightarrow> ('a \<Rightarrow> error + 'b) \<Rightarrow> error + 'b" where
  "bind_err m f = (case m of Inl e \<Rightarrow> Inl e | Inr x \<Rightarrow> f x)"

section \<open>Emulator state (register.c, memory.c, cpu.c)\<close>

record processor_state =
  negative_flag :: bool
  zero_flag :: bool
  carry_flag :: bool
  overflow_flag :: bool

text \<open>
  The module-level singletons of the emulator: the general registers, the program
  counter, the byte array \<open>mem\<close> and \<open>pstate\<close>. The arrays are functions from the index;
  every access of the source is bounds-checked before it indexes, and the model keeps
  those checks.
\<close>

record cpu =
  gen_registers :: "nat \<Rightarrow> double_word"
  program_counter :: double_word
  mem :: "nat \<Rightarrow> 8 word"
  pstate :: processor_state

definition NUM_REGISTERS :: word32 where "NUM_REGISTERS = 31"
definition NUM_OF_MEMORY_ADDRESS :: nat where "NUM_OF_MEMORY_ADDRESS = 2 ^ 21"

subsection \<open>register.c\<close>

definition set_reg_value :: "word32 \<Rightarrow> double_word \<Rightarrow> cpu \<Rightarrow> error + cpu" where
  "set_reg_value reg_num v s =
     (if reg_num = NUM_REGISTERS then Inr s
      else if reg_num > NUM_REGISTERS then Inl (RegisterDoesNotExist reg_num)
      else Inr (s\<lparr>gen_registers := (gen_registers s)(unat reg_num := v)\<rparr>))"

definition get_reg_value_32 :: "cpu \<Rightarrow> word32 \<Rightarrow> error + word32" where
  "get_reg_value_32 s reg_num =
     (if reg_num = NUM_REGISTERS then Inr 0
      else if reg_num > NUM_REGISTERS then Inl (RegisterDoesNotExist reg_num)
      else Inr (ucast (gen_registers s (unat reg_num))))"

definition get_reg_value_64 :: "cpu \<Rightarrow> word32 \<Rightarrow> error + double_word" where
  "get_reg_value_64 s reg_num =
     (if reg_num = NUM_REGISTERS then Inr 0
      else if reg_num > NUM_REGISTERS then Inl (RegisterDoesNotExist reg_num)
      else Inr (gen_registers s (unat reg_num)))"

definition increase_pc :: "double_word \<Rightarrow> cpu \<Rightarrow> cpu" where
  "increase_pc offset s = s\<lparr>program_counter := program_counter s + offset\<rparr>"

definition increment_pc :: "cpu \<Rightarrow> cpu" where
  "increment_pc s = s\<lparr>program_counter := program_counter s + 4\<rparr>"

subsection \<open>memory.c\<close>

text \<open>
  \<open>memcpy\<close> between a \<open>uint32_t\<close>/\<open>uint64_t\<close> object and \<open>mem + address\<close> on a
  little-endian machine: byte \<open>k\<close> of the object is bits \<open>8k .. 8k+7\<close> of its value.
\<close>

fun bytes_of :: "nat \<Rightarrow> 'a::len word \<Rightarrow> 8 word list" where
  "bytes_of 0 w = []"
| "bytes_of (Suc n) w = ucast w # bytes_of n (drop_bit 8 w)"

fun word_of_bytes :: "8 word list \<Rightarrow> 'a::len word" where
  "word_of_bytes [] = 0"
| "word_of_bytes (b # bs) = ucast b OR push_bit 8 (word_of_bytes bs)"

fun store_bytes :: "(nat \<Rightarrow> 8 word) \<Rightarrow> nat \<Rightarrow> 8 word list \<Rightarrow> (nat \<Rightarrow> 8 word)" where
  "store_bytes m a [] = m"
| "store_bytes m a (b # bs) = store_bytes (m(a := b)) (Suc a) bs"

fun load_bytes :: "(nat \<Rightarrow> 8 word) \<Rightarrow> nat \<Rightarrow> nat \<Rightarrow> 8 word list" where
  "load_bytes m a 0 = []"
| "load_bytes m a (Suc n) = m a # load_bytes m (Suc a) n"

text \<open>
  The bounds test \<open>address > NUM_OF_MEMORY_ADDRESS - sizeof(word)\<close> is evaluated in
  \<open>size_t\<close> (64 bits): neither side wraps.
\<close>

definition get_word :: "cpu \<Rightarrow> word32 \<Rightarrow> error + word32" where
  "get_word s address =
     (if unat address > NUM_OF_MEMORY_ADDRESS - 4 then Inl (WordOutOfBounds address)
      else Inr (word_of_bytes (load_bytes (mem s) (unat address) 4)))"

definition set_word :: "word32 \<Rightarrow> word32 \<Rightarrow> cpu \<Rightarrow> error + cpu" where
  "set_word address data s =
     (if unat address > NUM_OF_MEMORY_ADDRESS - 4 then Inl (WordOutOfBounds address)
      else Inr (s\<lparr>mem := store_bytes (mem s) (unat address) (bytes_of 4 data)\<rparr>))"

definition get_double_word :: "cpu \<Rightarrow> word32 \<Rightarrow> error + double_word" where
  "get_double_word s address =
     (if unat address > NUM_OF_MEMORY_ADDRESS - 8 then Inl (DoubleWordOutOfBounds address)
      else Inr (word_of_bytes (load_bytes (mem s) (unat address) 8)))"

definition set_double_word :: "word32 \<Rightarrow> double_word \<Rightarrow> cpu \<Rightarrow> error + cpu" where
  "set_double_word address data s =
     (if unat address > NUM_OF_MEMORY_ADDRESS - 8 then Inl (DoubleWordOutOfBounds address)
      else Inr (s\<lparr>mem := store_bytes (mem s) (unat address) (bytes_of 8 data)\<rparr>))"

subsection \<open>utils.c\<close>

text \<open>
  \<open>sign_extend(bits, bit_length)\<close>: the test compares the whole of
  \<open>bits >> (bit_length - 1)\<close> with 1, and the mask \<open>(1 << bit_length) - 1\<close> is XORed
  into the all-ones 64-bit constant.
\<close>

definition sign_extend :: "double_word \<Rightarrow> nat \<Rightarrow> double_word" where
  "sign_extend bits bit_length =
     (if drop_bit (bit_length - 1) bits = 1
      then ((0xFFFFFFFFFFFFFFFF XOR (push_bit bit_length 1 - 1)) OR bits)
      else bits)"

subsection \<open>cpu.c: data-processing helpers\<close>

definition MSB_32_BIT :: word32 where "MSB_32_BIT = push_bit 31 1"
definition MSB_64_BIT :: double_word where "MSB_64_BIT = push_bit 63 1"

text \<open>
  \<open>apply_arithmetic_32\<close> and \<open>apply_arithmetic_64\<close>. The sum or difference is formed
  on the operands converted to the signed type and converted back, which is the
  wrap-around sum or difference of the unsigned operands. \<open>result\<close> is unsigned, so the
  comparison \<open>result < 0\<close> in the overflow test is a comparison of words with zero.
\<close>

definition apply_arithmetic_32 ::
  "word32 \<Rightarrow> word32 \<Rightarrow> word32 \<Rightarrow> word32 \<Rightarrow> word32 \<Rightarrow> cpu \<Rightarrow> error + cpu" where
  "apply_arithmetic_32 src operand2 dest_reg_index opc_flag opc_op s =
     (let result = (if opc_op \<noteq> 0 then src - operand2 else src + operand2);
          s1 = (if opc_flag \<noteq> 0
                then s\<lparr>pstate :=
                  \<lparr>negative_flag = (result AND MSB_32_BIT \<noteq> 0),
                   zero_flag = (result = 0),
                   carry_flag = (if opc_op \<noteq> 0 then src \<ge> operand2
                                 else result < src \<or> result < operand2),
                   overflow_flag = (src > 0 \<and> operand2 > 0 \<and> result < 0)\<rparr>\<rparr>
                else s)
      in if dest_reg_index = NUM_REGISTERS then Inr s1
         else set_reg_value dest_reg_index (ucast result) s1)"

definition apply_arithmetic_64 ::
  "double_word \<Rightarrow> double_word \<Rightarrow> word32 \<Rightarrow> word32 \<Rightarrow> word32 \<Rightarrow> cpu \<Rightarrow> error + cpu" where
  "apply_arithmetic_64 src operand2 dest_reg_index opc_flag opc_op s =
     (let result = (if opc_op \<noteq> 0 then src - operand2 else src + operand2);
          s1 = (if opc_flag \<noteq> 0
                then s\<lparr>pstate :=
                  \<lparr>negative_flag = (result AND MSB_64_BIT \<noteq> 0),
                   zero_flag = (result = 0),
                   carry_flag = (if opc_op \<noteq> 0 then src \<ge> operand2
                                 else result < src \<or> result < operand2),
                   overflow_flag = (src > 0 \<and> operand2 > 0 \<and> result < 0)\<rparr>\<rparr>
                else s)
      in if dest_reg_index = NUM_REGISTERS then Inr s1
         else set_reg_value dest_reg_index result s1)"

text \<open>
  \<open>apply_shift_32\<close> and \<open>apply_shift_64\<close>. The shift amount is the 6-bit \<open>operand\<close>
  field. The switch has a case for each of the four values of the 2-bit \<open>shift\<close> field;
  any other value leaves the operand as it is.

  In the 32-bit function the amount can be 32 to 63, and \<open>CONST_32 - shift\<close> is formed
  in \<open>uint32_t\<close>, where it wraps. C leaves a shift of a 32-bit value by 32 or more
  undefined; the model takes the amount modulo 32, as the shift instructions of the
  x86-64 target do. For amounts below 32 this is the C expression itself. In the 64-bit
  function every amount of the field is below 64; only the rotation by 0 shifts by 64, and
  its result is the operand whether that shift gives 0 or the operand.
\<close>

definition apply_shift_32 :: "word32 \<Rightarrow> word32 \<Rightarrow> word32 \<Rightarrow> word32" where
  "apply_shift_32 operand shift shift_option =
     (if shift_option = ITP_LSL then push_bit (unat shift mod 32) operand
      else if shift_option = ITP_LSR then drop_bit (unat shift mod 32) operand
      else if shift_option = ITP_ASR then signed_drop_bit (unat shift mod 32) operand
      else if shift_option = ITP_ROR
        then drop_bit (unat shift mod 32) operand
               OR push_bit (unat (32 - shift) mod 32) operand
      else operand)"

definition apply_shift_64 :: "double_word \<Rightarrow> word32 \<Rightarrow> word32 \<Rightarrow> double_word" where
  "apply_shift_64 operand shift shift_option =
     (if shift_option = ITP_LSL then push_bit (unat shift) operand
      else if shift_option = ITP_LSR then drop_bit (unat shift) operand
      else if shift_option = ITP_ASR then signed_drop_bit (unat shift) operand
      else if shift_option = ITP_ROR
        then drop_bit (unat shift) operand OR push_bit (64 - unat shift) operand
      else operand)"

text \<open>
  \<open>apply_logic\<close>. \<open>opc\<close> is a 2-bit field, so one of the cases always applies; the
  source leaves \<open>result\<close> unassigned otherwise, for which the model returns 0.
\<close>

definition apply_logic :: "double_word \<Rightarrow> double_word \<Rightarrow> word32 \<Rightarrow> word32 \<Rightarrow> double_word" where
  "apply_logic src operand2 opc N =
     (let operand2 = (if N \<noteq> 0 then NOT operand2 else operand2)
      in if opc = ITP_AND \<or> opc = ITP_AND_W_FLAGS then src AND operand2
         else if opc = ITP_OR then src OR operand2
         else if opc = ITP_XOR then src XOR operand2
         else 0)"

subsection \<open>cpu.c: the executors\<close>

definition exec_imm_arithmetic :: "word32 \<Rightarrow> cpu \<Rightarrow> error + cpu" where
  "exec_imm_arithmetic inst s =
     (let operand2 = (if imm_arith_sh inst \<noteq> 0 then push_bit 12 (imm_arith_imm12 inst)
                      else imm_arith_imm12 inst)
      in if imm_arith_sf inst \<noteq> 0
         then bind_err (get_reg_value_64 s (imm_arith_rn inst)) (\<lambda>src.
                apply_arithmetic_64 src (ucast operand2) (imm_arith_rd inst)
                  (imm_arith_opc_flag inst) (imm_arith_opc_op inst) s)
         else bind_err (get_reg_value_32 s (imm_arith_rn inst)) (\<lambda>src.
                apply_arithmetic_32 src operand2 (imm_arith_rd inst)
                  (imm_arith_opc_flag inst) (imm_arith_opc_op inst) s))"

definition exec_wide_move :: "word32 \<Rightarrow> cpu \<Rightarrow> error + cpu" where
  "exec_wide_move inst s =
     (if imm_wide_opc inst = ITP_MOVK
      then (let position = 16 * unat (imm_wide_hw inst)
            in bind_err (get_reg_value_64 s (imm_wide_rd inst)) (\<lambda>register_value.
                 let mask = NOT (push_bit position (0xFFFF :: double_word));
                     register_value = register_value AND mask;
                     register_value =
                       register_value OR push_bit position (ucast (imm_wide_imm16 inst));
                     register_value = (if imm_wide_sf inst = 0
                                       then register_value AND 0xFFFFFFFF
                                       else register_value)
                 in set_reg_value (imm_wide_rd inst) register_value s))
      else (let operand = push_bit (unat (imm_wide_hw inst) * 16)
                            (ucast (imm_wide_imm16 inst) :: double_word);
                operand = (if imm_wide_opc inst = ITP_MOVN then NOT operand else operand);
                operand = (if imm_wide_sf inst = 0 then operand AND 0xFFFFFFFF else operand)
            in set_reg_value (imm_wide_rd inst) operand s))"

definition exec_reg_arithmetic :: "word32 \<Rightarrow> cpu \<Rightarrow> error + cpu" where
  "exec_reg_arithmetic inst s =
     (if reg_arith_sf inst \<noteq> 0
      then bind_err (get_reg_value_64 s (reg_arith_rm inst)) (\<lambda>operand2.
             let operand2 = apply_shift_64 operand2 (reg_arith_operand inst)
                              (reg_arith_shift inst)
             in bind_err (get_reg_value_64 s (reg_arith_rn inst)) (\<lambda>src.
                  apply_arithmetic_64 src operand2 (reg_arith_rd inst)
                    (reg_arith_opc_flag inst) (reg_arith_opc_op inst) s))
      else bind_err (get_reg_value_32 s (reg_arith_rm inst)) (\<lambda>operand2.
             let operand2 = apply_shift_32 operand2 (reg_arith_operand inst)
                              (reg_arith_shift inst)
             in bind_err (get_reg_value_32 s (reg_arith_rn inst)) (\<lambda>src.
                  apply_arithmetic_32 src operand2 (reg_arith_rd inst)
                    (reg_arith_opc_flag inst) (reg_arith_opc_op inst) s)))"

definition exec_reg_logic :: "word32 \<Rightarrow> cpu \<Rightarrow> error + cpu" where
  "exec_reg_logic inst s =
     (if reg_logic_sf inst \<noteq> 0
      then bind_err (get_reg_value_64 s (reg_logic_rm inst)) (\<lambda>operand2.
             let operand2 = apply_shift_64 operand2 (reg_logic_operand inst)
                              (reg_logic_shift inst)
             in bind_err (get_reg_value_64 s (reg_logic_rn inst)) (\<lambda>src.
                  let result = apply_logic src operand2 (reg_logic_opc inst)
                                 (reg_logic_N inst);
                      s1 = (if reg_logic_opc inst = ITP_AND_W_FLAGS
                            then s\<lparr>pstate :=
                              \<lparr>negative_flag = (result AND MSB_64_BIT \<noteq> 0),
                               zero_flag = (result = 0),
                               carry_flag = False,
                               overflow_flag = False\<rparr>\<rparr>
                            else s)
                  in set_reg_value (reg_logic_rd inst) result s1))
      else bind_err (get_reg_value_32 s (reg_logic_rm inst)) (\<lambda>operand2.
             let operand2 = apply_shift_32 operand2 (reg_logic_operand inst)
                              (reg_logic_shift inst)
             in bind_err (get_reg_value_32 s (reg_logic_rn inst)) (\<lambda>src.
                  let result = (ucast (apply_logic (ucast src) (ucast operand2)
                                  (reg_logic_opc inst) (reg_logic_N inst)) :: word32);
                      s1 = (if reg_logic_opc inst = ITP_AND_W_FLAGS
                            then s\<lparr>pstate :=
                              \<lparr>negative_flag = (result AND MSB_32_BIT \<noteq> 0),
                               zero_flag = (result = 0),
                               carry_flag = False,
                               overflow_flag = False\<rparr>\<rparr>
                            else s)
                  in set_reg_value (reg_logic_rd inst) (ucast result) s1)))"

definition exec_reg_multiply :: "word32 \<Rightarrow> cpu \<Rightarrow> error + cpu" where
  "exec_reg_multiply inst s =
     (if reg_multiply_sf inst \<noteq> 0
      then bind_err (get_reg_value_64 s (reg_multiply_rn inst)) (\<lambda>rn_val.
           bind_err (get_reg_value_64 s (reg_multiply_rm inst)) (\<lambda>rm_val.
           bind_err (if reg_multiply_ra inst = 32 then Inr 0
                     else get_reg_value_64 s (reg_multiply_ra inst)) (\<lambda>ra_val.
             let result = (if reg_multiply_x inst \<noteq> 0 then ra_val - rn_val * rm_val
                           else ra_val + rn_val * rm_val)
             in set_reg_value (reg_multiply_rd inst) result s)))
      else bind_err (get_reg_value_32 s (reg_multiply_rn inst)) (\<lambda>rn_val.
           bind_err (get_reg_value_32 s (reg_multiply_rm inst)) (\<lambda>rm_val.
           bind_err (if reg_multiply_ra inst = 32 then Inr 0
                     else get_reg_value_32 s (reg_multiply_ra inst)) (\<lambda>ra_val.
             let result = (if reg_multiply_x inst \<noteq> 0 then ra_val - rn_val * rm_val
                           else ra_val + rn_val * rm_val)
             in set_reg_value (reg_multiply_rd inst) (ucast result) s))))"

text \<open>
  The data-transfer executors. \<open>address\<close> is a \<open>uint32_t\<close>: the 64-bit sum is truncated
  when it is assigned.
\<close>

definition exec_dt_imm_offset :: "word32 \<Rightarrow> cpu \<Rightarrow> error + cpu" where
  "exec_dt_imm_offset inst s =
     (if dt_imm_offset_sf inst \<noteq> 0
      then bind_err (get_reg_value_64 s (dt_imm_offset_xn inst)) (\<lambda>xn_val.
             let address = (ucast (xn_val + ucast (dt_imm_offset_imm12 inst) * 8) :: word32)
             in if dt_imm_offset_L inst \<noteq> 0
                then bind_err (get_double_word s address) (\<lambda>v.
                       set_reg_value (dt_imm_offset_rt inst) v s)
                else bind_err (get_reg_value_64 s (dt_imm_offset_rt inst)) (\<lambda>v.
                       set_double_word address v s))
      else bind_err (get_reg_value_64 s (dt_imm_offset_xn inst)) (\<lambda>xn_val.
             let address = (ucast (xn_val + ucast (dt_imm_offset_imm12 inst) * 4) :: word32)
             in if dt_imm_offset_L inst \<noteq> 0
                then bind_err (get_word s address) (\<lambda>v.
                       set_reg_value (dt_imm_offset_rt inst) (ucast v) s)
                else bind_err (get_reg_value_32 s (dt_imm_offset_rt inst)) (\<lambda>v.
                       set_word address v s)))"

definition exec_dt_reg_offset :: "word32 \<Rightarrow> cpu \<Rightarrow> error + cpu" where
  "exec_dt_reg_offset inst s =
     bind_err (get_reg_value_64 s (dt_reg_offset_xn inst)) (\<lambda>xn_val.
     bind_err (get_reg_value_64 s (dt_reg_offset_xm inst)) (\<lambda>xm_val.
       let address = (ucast (xn_val + xm_val) :: word32)
       in if dt_reg_offset_sf inst \<noteq> 0
          then (if dt_reg_offset_L inst \<noteq> 0
                then bind_err (get_double_word s address) (\<lambda>v.
                       set_reg_value (dt_reg_offset_rt inst) v s)
                else bind_err (get_reg_value_64 s (dt_reg_offset_rt inst)) (\<lambda>v.
                       set_double_word address v s))
          else (if dt_reg_offset_L inst \<noteq> 0
                then bind_err (get_word s address) (\<lambda>v.
                       set_reg_value (dt_reg_offset_rt inst) (ucast v) s)
                else bind_err (get_reg_value_32 s (dt_reg_offset_rt inst)) (\<lambda>v.
                       set_word address v s))))"

definition exec_dt_load_literal :: "word32 \<Rightarrow> cpu \<Rightarrow> error + cpu" where
  "exec_dt_load_literal inst s =
     (let address = (ucast (program_counter s
                        + sign_extend (ucast (dt_load_literal_simm19 inst)) 19 * 4) :: word32)
      in if dt_load_literal_sf inst \<noteq> 0
         then bind_err (get_double_word s address) (\<lambda>v.
                set_reg_value (dt_load_literal_rt inst) v s)
         else bind_err (get_word s address) (\<lambda>v.
                set_reg_value (dt_load_literal_rt inst) (ucast v) s))"

definition exec_dt_pre_index :: "word32 \<Rightarrow> cpu \<Rightarrow> error + cpu" where
  "exec_dt_pre_index inst s =
     bind_err (get_reg_value_64 s (dt_pre_post_index_xn inst)) (\<lambda>xn_val.
       let new_address =
             (ucast (xn_val + sign_extend (ucast (dt_pre_post_index_simm9 inst)) 9) :: word32)
       in bind_err (set_reg_value (dt_pre_post_index_xn inst) (ucast new_address) s) (\<lambda>s1.
            if dt_pre_post_index_sf inst \<noteq> 0
            then (if dt_pre_post_index_L inst \<noteq> 0
                  then bind_err (get_double_word s1 new_address) (\<lambda>v.
                         set_reg_value (dt_pre_post_index_rt inst) v s1)
                  else bind_err (get_reg_value_64 s1 (dt_pre_post_index_rt inst)) (\<lambda>v.
                         set_double_word new_address v s1))
            else (if dt_pre_post_index_L inst \<noteq> 0
                  then bind_err (get_word s1 new_address) (\<lambda>v.
                         set_reg_value (dt_pre_post_index_rt inst) (ucast v) s1)
                  else bind_err (get_reg_value_32 s1 (dt_pre_post_index_rt inst)) (\<lambda>v.
                         set_word new_address v s1))))"

definition exec_dt_post_index :: "word32 \<Rightarrow> cpu \<Rightarrow> error + cpu" where
  "exec_dt_post_index inst s =
     bind_err (get_reg_value_64 s (dt_pre_post_index_xn inst)) (\<lambda>xn_val.
       let address = (ucast xn_val :: word32)
       in if dt_pre_post_index_sf inst \<noteq> 0
          then bind_err
                 (if dt_pre_post_index_L inst \<noteq> 0
                  then bind_err (get_double_word s address) (\<lambda>v.
                         set_reg_value (dt_pre_post_index_rt inst) v s)
                  else bind_err (get_reg_value_64 s (dt_pre_post_index_rt inst)) (\<lambda>v.
                         set_double_word address v s))
                 (\<lambda>s1. set_reg_value (dt_pre_post_index_xn inst)
                          (ucast address + sign_extend (ucast (dt_pre_post_index_simm9 inst)) 9)
                          s1)
          else bind_err
                 (if dt_pre_post_index_L inst \<noteq> 0
                  then bind_err (get_word s address) (\<lambda>v.
                         set_reg_value (dt_pre_post_index_rt inst) (ucast v) s)
                  else bind_err (get_reg_value_64 s (dt_pre_post_index_rt inst)) (\<lambda>v.
                         set_double_word address v s))
                 (\<lambda>s1. set_reg_value (dt_pre_post_index_xn inst)
                          (ucast address + sign_extend (ucast (dt_pre_post_index_simm9 inst)) 9)
                          s1))"

text \<open>The branch executors.\<close>

definition exec_branch_uncond :: "word32 \<Rightarrow> cpu \<Rightarrow> error + cpu" where
  "exec_branch_uncond inst s =
     Inr (increase_pc (sign_extend (ucast (branch_unconditional_simm26 inst)) 26 * 4) s)"

definition exec_branch_cond :: "word32 \<Rightarrow> cpu \<Rightarrow> error + cpu" where
  "exec_branch_cond inst s =
     (let offset = sign_extend (ucast (branch_conditional_simm19 inst)) 19 * 4;
          c = branch_conditional_cond inst;
          p = pstate s;
          condition =
            (if c = ITP_EQ then zero_flag p
             else if c = ITP_NE then \<not> zero_flag p
             else if c = ITP_GE then negative_flag p = overflow_flag p
             else if c = ITP_LT then negative_flag p \<noteq> overflow_flag p
             else if c = ITP_GT then \<not> zero_flag p \<and> negative_flag p = overflow_flag p
             else if c = ITP_LE then \<not> (\<not> zero_flag p \<and> negative_flag p = overflow_flag p)
             else if c = ITP_AL then True
             else False)
      in if condition then Inr (increase_pc offset s) else Inr (increment_pc s))"

definition exec_branch_reg :: "word32 \<Rightarrow> cpu \<Rightarrow> error + cpu" where
  "exec_branch_reg inst s =
     bind_err (get_reg_value_64 s (branch_register_xn inst)) (\<lambda>v.
       Inr (s\<lparr>program_counter := v\<rparr>))"

subsection \<open>cpu.c: fetch, decode and the run loop\<close>

text \<open>\<open>fetch\<close> passes the 64-bit program counter to the \<open>uint32_t\<close> parameter of \<open>get_word\<close>.\<close>

definition fetch :: "cpu \<Rightarrow> error + word32" where
  "fetch s = get_word s (ucast (program_counter s))"

text \<open>
  \<open>decode_and_execute\<close>. A group test of the source whose inner tests all fail falls
  through to the next group; the model writes the nested tests as one chain.
\<close>

definition decode_and_execute :: "word32 \<Rightarrow> cpu \<Rightarrow> error + cpu" where
  "decode_and_execute inst s =
     (if gen_branch_op0 inst = ITP_BRANCH
      then (if branch_unconditional_id inst = ITP_BRANCH_UNCOND then exec_branch_uncond inst s
            else if branch_conditional_id inst = ITP_BRANCH_COND then exec_branch_cond inst s
            else exec_branch_reg inst s)
      else if gen_dp_imm_op0 inst = ITP_DP_IMM \<and> imm_arith_opi inst = ITP_IMM_ARITH
        then exec_imm_arithmetic inst s
      else if gen_dp_imm_op0 inst = ITP_DP_IMM \<and> imm_wide_opi inst = ITP_WIDE_MOVE
        then exec_wide_move inst s
      else if gen_dp_reg_op0 inst = ITP_DP_REG \<and> reg_multiply_M inst = ITP_REG_MULTIPLY
        then exec_reg_multiply inst s
      else if gen_dp_reg_op0 inst = ITP_DP_REG \<and> reg_arith_id inst = ITP_REG_ARITH
        then exec_reg_arithmetic inst s
      else if gen_dp_reg_op0 inst = ITP_DP_REG \<and> reg_logic_id inst = ITP_REG_LOGIC
        then exec_reg_logic inst s
      else if gen_dt_op0_1 inst = ITP_DT_1 \<and> gen_dt_op0_2 inst = ITP_DT_2
        then (if dt_load_literal_id inst = ITP_DT_LOAD_LITERAL then exec_dt_load_literal inst s
              else if dt_imm_offset_U inst = ITP_DT_IMM_OFFSET then exec_dt_imm_offset inst s
              else if dt_reg_offset_id2 inst = ITP_DT_REGISTER_OFFSET
                then exec_dt_reg_offset inst s
              else if dt_pre_post_index_I inst = ITP_DT_PRE_INDEX then exec_dt_pre_index inst s
              else exec_dt_post_index inst s)
      else Inl (UnknownInstruction inst (program_counter s)))"

text \<open>
  \<open>run_cpu\<close>: the loop has no bound of its own, so the model is a partial function;
  \<open>None\<close> stands for a run that never fetches the halt instruction.
\<close>

partial_function (option) run_cpu :: "cpu \<Rightarrow> (error + cpu) option" where
  "run_cpu s =
     (case fetch s of
        Inl e \<Rightarrow> Some (Inl e)
      | Inr inst \<Rightarrow>
          if inst = HALT_INSTRUCTION then Some (Inr s)
          else (case decode_and_execute inst s of
                  Inl e \<Rightarrow> Some (Inl e)
                | Inr s' \<Rightarrow>
                    run_cpu (if gen_branch_op0 inst \<noteq> ITP_BRANCH then increment_pc s'
                             else s')))"

declare run_cpu.simps [code]

text \<open>
  \<open>init_cpu\<close>: registers, program counter and memory are zeroed and the input file is
  copied to address 0, a whole number of 4-byte instructions. \<open>pstate\<close> has the static
  initialiser \<open>{false, true, false, false}\<close>.
\<close>

definition initial_pstate :: processor_state where
  "initial_pstate =
     \<lparr>negative_flag = False, zero_flag = True, carry_flag = False, overflow_flag = False\<rparr>"

definition init_cpu :: "8 word list \<Rightarrow> error + cpu" where
  "init_cpu input_file =
     (if length input_file > NUM_OF_MEMORY_ADDRESS then Inl InputFileTooLarge
      else Inr \<lparr>gen_registers = (\<lambda>_. 0),
                program_counter = 0,
                mem = store_bytes (\<lambda>_. 0) 0
                        (take (INSTR_SIZE * (length input_file div INSTR_SIZE)) input_file),
                pstate = initial_pstate\<rparr>)"

text \<open>The PSTATE line that \<open>print_cpu\<close> writes between the registers and the memory.\<close>

definition pstate_line :: "processor_state \<Rightarrow> string" where
  "pstate_line p =
     ''PSTATE : '' @ (if negative_flag p then ''N'' else ''-'')
                   @ (if zero_flag p then ''Z'' else ''-'')
                   @ (if carry_flag p then ''C'' else ''-'')
                   @ (if overflow_flag p then ''V'' else ''-'') @ [CHR 0x0A]"

text \<open>\<open>emulate\<close>: initialise, run, and hand the final state to \<open>print_cpu\<close>.\<close>

definition emulate :: "8 word list \<Rightarrow> (error + cpu) option" where
  "emulate input_file =
     (case init_cpu input_file of Inl e \<Rightarrow> Some (Inl e) | Inr s \<Rightarrow> run_cpu s)"

text \<open>
  The multiply executor as it would read with the \<open>ra == 32\<close> test dropped: the
  accumulator is always read through the register file. It is compared with
  \<open>exec_reg_multiply\<close> below.
\<close>

definition exec_reg_multiply_via_register_file :: "word32 \<Rightarrow> cpu \<Rightarrow> error + cpu" where
  "exec_reg_multiply_via_register_file inst s =
     (if reg_multiply_sf inst \<noteq> 0
      then bind_err (get_reg_value_64 s (reg_multiply_rn inst)) (\<lambda>rn_val.
           bind_err (get_reg_value_64 s (reg_multiply_rm inst)) (\<lambda>rm_val.
           bind_err (get_reg_value_64 s (reg_multiply_ra inst)) (\<lambda>ra_val.
             let result = (if reg_multiply_x inst \<noteq> 0 then ra_val - rn_val * rm_val
                           else ra_val + rn_val * rm_val)
             in set_reg_value (reg_multiply_rd inst) result s)))
      else bind_err (get_reg_value_32 s (reg_multiply_rn inst)) (\<lambda>rn_val.
           bind_err (get_reg_value_32 s (reg_multiply_rm inst)) (\<lambda>rm_val.
           bind_err (get_reg_value_32 s (reg_multiply_ra inst)) (\<lambda>ra_val.
             let result = (if reg_multiply_x inst \<noteq> 0 then ra_val - rn_val * rm_val
                           else ra_val + rn_val * rm_val)
             in set_reg_value (reg_multiply_rd inst) (ucast result) s))))"

section \<open>Assembler: symbol table (symbol_table.c)\<close>

text \<open>
  The two hash maps of the symbol table, keyed by the label string: \<open>labels\<close> holds the
  address of every defined label, \<open>addresses\<close> the list of instruction addresses at
  which a label was used before its definition, in the order they were added.
\<close>

record symbol_table =
  labels :: "string \<rightharpoonup> word32"
  addresses :: "string \<rightharpoonup> word32 list"

definition symbol_table_init :: symbol_table where
  "symbol_table_init = \<lparr>labels = Map.empty, addresses = Map.empty\<rparr>"

text \<open>
  \<open>modify_line\<close>. \<open>offset\<close> is the unsigned 32-bit difference divided by 4; the
  assignment to the bit-field keeps its low 26 or 19 bits.
\<close>

definition modify_line :: "word32 \<Rightarrow> word32 \<Rightarrow> word32 \<Rightarrow> error + word32" where
  "modify_line instruction instruction_address literal_address =
     (let offset = (literal_address - instruction_address) div 4
      in if gen_branch_op0 instruction = ITP_BRANCH
            \<and> branch_unconditional_id instruction = ITP_BRANCH_UNCOND
         then Inr (set_bitfield instruction 0 26 offset)
         else if gen_branch_op0 instruction = ITP_BRANCH
            \<and> branch_conditional_id instruction = ITP_BRANCH_COND
         then Inr (set_bitfield instruction 5 19 offset)
         else if gen_dt_op0_1 instruction = ITP_DT_1 \<and> gen_dt_op0_2 instruction = ITP_DT_2
            \<and> dt_load_literal_id instruction = ITP_DT_LOAD_LITERAL
         then Inr (set_bitfield instruction 5 19 offset)
         else Inl (NotABranchLiteral instruction))"

text \<open>
  The loop of \<open>symbol_table_add_label\<close> over the addresses recorded for the label:
  \<open>darray_get\<close> asserts that the index \<open>address / 4\<close> is within the instruction array,
  and \<open>modify_line\<close> rewrites the word in place.
\<close>

fun modify_lines :: "word32 list \<Rightarrow> word32 list \<Rightarrow> word32 \<Rightarrow> error + word32 list" where
  "modify_lines instructions [] literal_address = Inr instructions"
| "modify_lines instructions (instruction_address # rest) literal_address =
     (let index = unat (instruction_address div 4)
      in if index < length instructions
         then bind_err
                (modify_line (instructions ! index) instruction_address literal_address)
                (\<lambda>w. modify_lines (instructions[index := w]) rest literal_address)
         else Inl (IndexOutOfBounds index (length instructions)))"

definition symbol_table_add_label ::
  "word32 list \<Rightarrow> word32 \<Rightarrow> string \<Rightarrow> symbol_table \<Rightarrow> error + word32 list \<times> symbol_table" where
  "symbol_table_add_label instructions literal_address label st =
     (case labels st label of
        Some previous \<Rightarrow> Inl (MultipleDefinitions previous literal_address)
      | None \<Rightarrow>
          (let st' = st\<lparr>labels := (labels st)(label \<mapsto> literal_address)\<rparr>
           in case addresses st label of
                None \<Rightarrow> Inr (instructions, st')
              | Some addresses_of_instructions \<Rightarrow>
                  bind_err
                    (modify_lines instructions addresses_of_instructions literal_address)
                    (\<lambda>instructions'. Inr (instructions', st'))))"

text \<open>
  \<open>symbol_table_get_address\<close>. For a defined label the difference is taken on the
  addresses converted to \<open>int\<close> and divided by 4 with C's division, which truncates
  towards zero.
\<close>

definition symbol_table_get_address :: "word32 \<Rightarrow> string \<Rightarrow> symbol_table \<Rightarrow> int \<times> symbol_table" where
  "symbol_table_get_address instruction_address label st =
     (case labels st label of
        Some literal_address \<Rightarrow> ((sint literal_address - sint instruction_address) sdiv 4, st)
      | None \<Rightarrow>
          (case addresses st label of
             Some addresses_of_instructions \<Rightarrow>
               (0, st\<lparr>addresses := (addresses st)(label \<mapsto>
                       addresses_of_instructions @ [instruction_address])\<rparr>)
           | None \<Rightarrow>
               (0, st\<lparr>addresses := (addresses st)(label \<mapsto> [instruction_address])\<rparr>)))"

text \<open>
  The three encodings that \<open>modify_line\<close> accepts, named for the statements below:
  unconditional branch, conditional branch and load-literal.
\<close>

definition branch_uncond_encoding :: "word32 \<Rightarrow> bool" where
  "branch_uncond_encoding w \<longleftrightarrow>
     gen_branch_op0 w = ITP_BRANCH \<and> branch_unconditional_id w = ITP_BRANCH_UNCOND"

definition branch_cond_encoding :: "word32 \<Rightarrow> bool" where
  "branch_cond_encoding w \<longleftrightarrow>
     gen_branch_op0 w = ITP_BRANCH \<and> branch_conditional_id w = ITP_BRANCH_COND"

definition load_literal_encoding :: "word32 \<Rightarrow> bool" where
  "load_literal_encoding w \<longleftrightarrow>
     gen_dt_op0_1 w = ITP_DT_1 \<and> gen_dt_op0_2 w = ITP_DT_2
     \<and> dt_load_literal_id w = ITP_DT_LOAD_LITERAL"

section \<open>Assembler: decoding helpers (decode_helper.c)\<close>

text \<open>
  A C string is the list of its characters before the terminator; a \<open>char *\<close> that may be
  \<open>NULL\<close> is a \<open>string option\<close>. \<open>isalpha\<close>, \<open>isalnum\<close> and \<open>isspace\<close> are those of
  the C locale.
\<close>

definition isalpha :: "char \<Rightarrow> bool" where
  "isalpha c \<longleftrightarrow> (let n = (of_char c :: nat) in (65 \<le> n \<and> n \<le> 90) \<or> (97 \<le> n \<and> n \<le> 122))"

definition isalnum :: "char \<Rightarrow> bool" where
  "isalnum c \<longleftrightarrow> isalpha c \<or> (let n = (of_char c :: nat) in 48 \<le> n \<and> n \<le> 57)"

definition isspace :: "char \<Rightarrow> bool" where
  "isspace c \<longleftrightarrow> (let n = (of_char c :: nat) in n = 32 \<or> (9 \<le> n \<and> n \<le> 13))"

definition is_label :: "string \<Rightarrow> bool" where
  "is_label str \<longleftrightarrow> str \<noteq> [] \<and> last str = CHR '':''"

definition is_label_literal :: "string \<Rightarrow> bool" where
  "is_label_literal str \<longleftrightarrow>
     (case str of
        [] \<Rightarrow> False
      | c # cs \<Rightarrow>
          (isalpha c \<or> c = CHR ''_'' \<or> c = CHR ''.'')
          \<and> list_all (\<lambda>c. isalnum c \<or> c = CHR ''$'' \<or> c = CHR ''_'' \<or> c = CHR ''.'') cs)"

definition is_directive :: "string \<Rightarrow> bool" where
  "is_directive str \<longleftrightarrow> str \<noteq> [] \<and> hd str = CHR ''.''"

definition is_int_directive :: "string \<Rightarrow> bool" where
  "is_int_directive str \<longleftrightarrow> str = ''.int''"

text \<open>The macros of decode_helper.h.\<close>

definition is_zero_register :: "string \<Rightarrow> bool" where
  "is_zero_register str \<longleftrightarrow> tl str = ''zr''"

definition is_bit_mode_32 :: "string \<Rightarrow> bool" where
  "is_bit_mode_32 str \<longleftrightarrow> str \<noteq> [] \<and> hd str = CHR ''w''"

definition is_bit_mode_64 :: "string \<Rightarrow> bool" where
  "is_bit_mode_64 str \<longleftrightarrow> str \<noteq> [] \<and> hd str = CHR ''x''"

definition is_valid_register :: "string \<Rightarrow> bool" where
  "is_valid_register str \<longleftrightarrow> is_bit_mode_32 str \<or> is_bit_mode_64 str \<or> is_zero_register str"

definition is_hex_number :: "string \<Rightarrow> bool" where
  "is_hex_number str \<longleftrightarrow> take 2 str = ''0x''"

definition is_immediate :: "string \<Rightarrow> bool" where
  "is_immediate str \<longleftrightarrow> str \<noteq> [] \<and> hd str = CHR ''#''"

definition is_set_flags :: "string \<Rightarrow> bool" where
  "is_set_flags opcode \<longleftrightarrow> length opcode = 4"

definition is_pre_index :: "string \<Rightarrow> bool" where
  "is_pre_index str \<longleftrightarrow> str \<noteq> [] \<and> last str = CHR ''!''"

text \<open>
  \<open>strtol\<close> and \<open>atoi\<close> of the C library: leading white space, an optional sign, for
  base 16 an optional \<open>0x\<close> prefix, then the longest run of digits of the base; the value
  is clamped to the range of \<open>long\<close>, and \<open>atoi\<close> converts it to \<open>int\<close>.
\<close>

definition digit_value :: "char \<Rightarrow> nat option" where
  "digit_value c =
     (let n = (of_char c :: nat)
      in if 48 \<le> n \<and> n \<le> 57 then Some (n - 48)
         else if 97 \<le> n \<and> n \<le> 122 then Some (n - 87)
         else if 65 \<le> n \<and> n \<le> 90 then Some (n - 55)
         else None)"

fun parse_digits :: "nat \<Rightarrow> string \<Rightarrow> int \<Rightarrow> int" where
  "parse_digits base [] acc = acc"
| "parse_digits base (c # cs) acc =
     (case digit_value c of
        Some d \<Rightarrow> if d < base then parse_digits base cs (acc * int base + int d) else acc
      | None \<Rightarrow> acc)"

definition strtol :: "string \<Rightarrow> nat \<Rightarrow> int" where
  "strtol str base =
     (let s1 = dropWhile isspace str;
          negative = (s1 \<noteq> [] \<and> hd s1 = CHR ''-'');
          s2 = (if s1 \<noteq> [] \<and> (hd s1 = CHR ''-'' \<or> hd s1 = CHR ''+'') then tl s1 else s1);
          s3 = (if base = 16 \<and> (take 2 s2 = ''0x'' \<or> take 2 s2 = ''0X'') then drop 2 s2 else s2);
          v = parse_digits base s3 0;
          v = (if negative then - v else v)
      in max (- (2 ^ 63)) (min (2 ^ 63 - 1) v))"

definition atoi :: "string \<Rightarrow> int" where
  "atoi str = sint (word_of_int (strtol str 10) :: 32 word)"

definition read_reg_value :: "string \<Rightarrow> error + word32" where
  "read_reg_value opcode_segment =
     (if \<not> is_valid_register opcode_segment then Inl (InvalidRegister opcode_segment)
      else if is_zero_register opcode_segment then Inr 31
      else Inr (word_of_int (atoi (tl opcode_segment))))"

definition read_imm_value :: "string \<Rightarrow> word32" where
  "read_imm_value opcode_segment =
     (let opcode_segment = (if is_immediate opcode_segment then tl opcode_segment
                            else opcode_segment)
      in if is_hex_number opcode_segment then word_of_int (strtol opcode_segment 16)
         else word_of_int (atoi opcode_segment))"

definition read_shift_type :: "string \<Rightarrow> error + word32" where
  "read_shift_type opcode_segment =
     (if opcode_segment = ''lsl'' then Inr ITP_LSL
      else if opcode_segment = ''lsr'' then Inr ITP_LSR
      else if opcode_segment = ''asr'' then Inr ITP_ASR
      else if opcode_segment = ''ror'' then Inr ITP_ROR
      else Inl (UnknownShiftName opcode_segment))"

definition read_branch_cond_type :: "string \<Rightarrow> error + word32" where
  "read_branch_cond_type opcode_segment =
     (if take 2 opcode_segment \<noteq> ''b.''
      then Inl (NotABranchConditionInstruction opcode_segment)
      else (let c = drop 2 opcode_segment
            in if c = ''eq'' then Inr ITP_EQ
               else if c = ''ne'' then Inr ITP_NE
               else if c = ''ge'' then Inr ITP_GE
               else if c = ''lt'' then Inr ITP_LT
               else if c = ''gt'' then Inr ITP_GT
               else if c = ''le'' then Inr ITP_LE
               else if c = ''al'' then Inr ITP_AL
               else Inl (UnknownBranchCondition c)))"

definition is_opcode :: "string \<Rightarrow> string list \<Rightarrow> bool" where
  "is_opcode opcode opcodes \<longleftrightarrow> opcode \<in> set opcodes"

text \<open>
  \<open>operands\<close> is the array of \<open>MAX_NUM_OPERANDS = 5\<close> pointers. Reading through a
  \<open>NULL\<close> operand ends the process; \<open>deref\<close> makes that explicit.
\<close>

definition assert_num_opcodes :: "string option list \<Rightarrow> nat \<Rightarrow> error + unit" where
  "assert_num_opcodes operands num_required =
     (case find (\<lambda>i. operands ! i = None) [0..<num_required] of
        Some i \<Rightarrow> Inl (NotEnoughArguments num_required i)
      | None \<Rightarrow> Inr ())"

definition deref :: "string option \<Rightarrow> error + string" where
  "deref p = (case p of None \<Rightarrow> Inl NullPointerDereference | Some str \<Rightarrow> Inr str)"

section \<open>Assembler: encoders (decode.c)\<close>

text \<open>
  Every encoder starts from \<open>inst.data = 0\<close> and assigns bit-fields of the union; the
  model applies \<open>set_bitfield\<close> with the position and width of the assigned field, in
  the order of the source. \<open>set_bit(f)\<close> assigns 1; a C truth value is assigned as
  \<open>of_bool\<close>. The first \<open>num_required\<close> operands are not \<open>NULL\<close> once
  \<open>assert_num_opcodes\<close> has passed.
\<close>

definition bit_mode_of_operands :: "string option list \<Rightarrow> word32" where
  "bit_mode_of_operands operands =
     (if is_zero_register (the (operands ! 0))
      then of_bool (is_bit_mode_64 (the (operands ! 1)))
      else of_bool (is_bit_mode_64 (the (operands ! 0))))"

text \<open>
  \<open>assemble_multiply\<close>: \<open>op0\<close> (bits 25..27), \<open>M\<close> (28), \<open>id\<close> (24), \<open>sf\<close> (31),
  \<open>rd\<close> (0..4), \<open>rn\<close> (5..9), \<open>rm\<close> (16..20), \<open>ra\<close> (10..14), \<open>x\<close> (15).
\<close>

definition assemble_multiply :: "string \<Rightarrow> string option list \<Rightarrow> error + word32" where
  "assemble_multiply opcode operands =
     bind_err (assert_num_opcodes operands 4) (\<lambda>_.
       let inst = set_bitfield 0 25 3 ITP_DP_REG;
           inst = set_bitfield inst 28 1 1;
           inst = set_bitfield inst 24 1 1;
           inst = set_bitfield inst 31 1 (of_bool (is_bit_mode_64 (the (operands ! 0))))
       in bind_err (read_reg_value (the (operands ! 0))) (\<lambda>rd.
          bind_err (read_reg_value (the (operands ! 1))) (\<lambda>rn.
          bind_err (read_reg_value (the (operands ! 2))) (\<lambda>rm.
          bind_err (read_reg_value (the (operands ! 3))) (\<lambda>ra.
            let inst = set_bitfield inst 0 5 rd;
                inst = set_bitfield inst 5 5 rn;
                inst = set_bitfield inst 16 5 rm;
                inst = set_bitfield inst 10 5 ra
            in Inr (set_bitfield inst 15 1
                      (of_bool (opcode = ''msub'' \<or> opcode = ''mneg''))))))))"

text \<open>
  \<open>assemble_add_sub\<close>: \<open>sf\<close> (31), \<open>opc_op\<close> (30), \<open>opc_flag\<close> (29), \<open>rn\<close> (5..9),
  \<open>rd\<close> (0..4); immediate form \<open>op0\<close> (26..28), \<open>opi\<close> (23..25), \<open>sh\<close> (22),
  \<open>imm12\<close> (10..21); register form \<open>op0\<close> (25..27), \<open>id\<close> (24), \<open>rm\<close> (16..20),
  \<open>shift\<close> (22..23), \<open>operand\<close> (10..15).
\<close>

definition assemble_add_sub :: "string \<Rightarrow> string option list \<Rightarrow> error + word32" where
  "assemble_add_sub opcode operands =
     bind_err (assert_num_opcodes operands 3) (\<lambda>_.
       let inst = set_bitfield 0 31 1 (bit_mode_of_operands operands);
           inst = set_bitfield inst 30 1 (of_bool (take 3 opcode = ''sub''));
           inst = set_bitfield inst 29 1 (of_bool (is_set_flags opcode))
       in bind_err (read_reg_value (the (operands ! 1))) (\<lambda>rn.
          bind_err (read_reg_value (the (operands ! 0))) (\<lambda>rd.
            let inst = set_bitfield inst 5 5 rn;
                inst = set_bitfield inst 0 5 rd
            in if is_immediate (the (operands ! 2))
               then (let inst = set_bitfield inst 26 3 ITP_DP_IMM;
                         inst = set_bitfield inst 23 3 ITP_IMM_ARITH;
                         inst = (case operands ! 4 of
                                   None \<Rightarrow> inst
                                 | Some op5 \<Rightarrow>
                                     set_bitfield inst 22 1 (of_bool (read_imm_value op5 \<noteq> 0)))
                     in Inr (set_bitfield inst 10 12 (read_imm_value (the (operands ! 2)))))
               else (let inst = set_bitfield inst 25 3 ITP_DP_REG;
                         inst = set_bitfield inst 24 1 ITP_REG_ARITH
                     in bind_err (read_reg_value (the (operands ! 2))) (\<lambda>rm.
                          let inst = set_bitfield inst 16 5 rm
                          in case operands ! 3 of
                               None \<Rightarrow> Inr inst
                             | Some op4 \<Rightarrow>
                                 bind_err (read_shift_type op4) (\<lambda>shift.
                                 bind_err (deref (operands ! 4)) (\<lambda>op5.
                                   Inr (set_bitfield (set_bitfield inst 22 2 shift) 10 6
                                          (read_imm_value op5)))))))))"

text \<open>
  \<open>assemble_wide_move\<close>: \<open>opi\<close> (23..25), \<open>op0\<close> (26..28), \<open>sf\<close> (31), \<open>opc\<close>
  (29..30), \<open>rd\<close> (0..4), \<open>imm16\<close> (5..20), \<open>hw\<close> (21..22).
\<close>

definition assemble_wide_move :: "string \<Rightarrow> string option list \<Rightarrow> error + word32" where
  "assemble_wide_move opcode operands =
     bind_err (assert_num_opcodes operands 2) (\<lambda>_.
       let inst = set_bitfield 0 23 3 ITP_WIDE_MOVE;
           inst = set_bitfield inst 26 3 ITP_DP_IMM;
           inst = set_bitfield inst 31 1 (bit_mode_of_operands operands);
           inst = (if opcode = ''movn'' then set_bitfield inst 29 2 ITP_MOVN
                   else if opcode = ''movk'' then set_bitfield inst 29 2 ITP_MOVK
                   else if opcode = ''movz'' then set_bitfield inst 29 2 ITP_MOVZ
                   else inst)
       in bind_err (read_reg_value (the (operands ! 0))) (\<lambda>rd.
            let inst = set_bitfield inst 0 5 rd;
                inst = set_bitfield inst 5 16 (read_imm_value (the (operands ! 1)))
            in case operands ! 2 of
                 None \<Rightarrow> Inr inst
               | Some _ \<Rightarrow>
                   bind_err (deref (operands ! 3)) (\<lambda>op4.
                     Inr (set_bitfield inst 21 2 (read_imm_value op4 div 16)))))"

text \<open>
  \<open>assemble_logic\<close>: \<open>op0\<close> (25..27), \<open>sf\<close> (31), \<open>opc\<close> (29..30), \<open>N\<close> (21),
  \<open>shift\<close> (22..23), \<open>operand\<close> (10..15), \<open>rd\<close> (0..4), \<open>rn\<close> (5..9), \<open>rm\<close> (16..20).
\<close>

definition assemble_logic :: "string \<Rightarrow> string option list \<Rightarrow> error + word32" where
  "assemble_logic opcode operands =
     bind_err (assert_num_opcodes operands 3) (\<lambda>_.
       let inst = set_bitfield 0 25 3 ITP_DP_REG;
           inst = set_bitfield inst 31 1 (bit_mode_of_operands operands);
           inst = (if opcode = ''and'' \<or> opcode = ''bic'' then set_bitfield inst 29 2 ITP_AND
                   else if opcode = ''orr'' \<or> opcode = ''orn'' then set_bitfield inst 29 2 ITP_OR
                   else if opcode = ''eor'' \<or> opcode = ''eon'' then set_bitfield inst 29 2 ITP_XOR
                   else if opcode = ''ands'' \<or> opcode = ''bics''
                     then set_bitfield inst 29 2 ITP_AND_W_FLAGS
                   else inst);
           inst = set_bitfield inst 21 1
                    (of_bool (is_opcode opcode [''bic'', ''orn'', ''eon'', ''bics'']))
       in bind_err
            (case operands ! 3 of
               None \<Rightarrow> Inr inst
             | Some op4 \<Rightarrow>
                 bind_err (read_shift_type op4) (\<lambda>shift.
                 bind_err (deref (operands ! 4)) (\<lambda>op5.
                   Inr (set_bitfield (set_bitfield inst 22 2 shift) 10 6
                          (read_imm_value op5)))))
            (\<lambda>inst.
               bind_err (read_reg_value (the (operands ! 0))) (\<lambda>rd.
               bind_err (read_reg_value (the (operands ! 1))) (\<lambda>rn.
               bind_err (read_reg_value (the (operands ! 2))) (\<lambda>rm.
                 Inr (set_bitfield (set_bitfield (set_bitfield inst 0 5 rd) 5 5 rn)
                        16 5 rm))))))"

text \<open>
  \<open>assemble_load_store\<close>: \<open>rt\<close> (0..4), \<open>sf\<close> (30); load-literal \<open>op0_1\<close> (27),
  \<open>NIL_3\<close> (28..29), \<open>simm19\<close> (5..23); otherwise \<open>id\<close> (31), \<open>NIL_5\<close> (29), \<open>NIL_4\<close>
  (28), \<open>op0_1\<close> (27), \<open>L\<close> (22), \<open>xn\<close> (5..9), \<open>U\<close> (24); pre- and post-index
  \<open>I\<close> (11), \<open>NIL_1\<close> (10), \<open>simm9\<close> (12..20); unsigned offset \<open>imm12\<close> (10..21);
  register offset \<open>id2\<close> (21), \<open>NIL_1\<close> (10..15), \<open>xm\<close> (16..20). The label of a
  load-literal is looked up in the symbol table at the current address.
\<close>

definition assemble_load_store ::
  "string \<Rightarrow> string option list \<Rightarrow> word32 \<Rightarrow> symbol_table \<Rightarrow> error + word32 \<times> symbol_table" where
  "assemble_load_store opcode operands current_address st =
     bind_err (assert_num_opcodes operands 2) (\<lambda>_.
     bind_err (read_reg_value (the (operands ! 0))) (\<lambda>rt.
       let op2 = the (operands ! 1);
           inst = set_bitfield 0 0 5 rt;
           inst = set_bitfield inst 30 1 (of_bool (is_bit_mode_64 (the (operands ! 0))))
       in if operands ! 2 = None \<and> \<not> (op2 \<noteq> [] \<and> hd op2 = CHR ''['')
          then (let inst = set_bitfield inst 27 1 1;
                    inst = set_bitfield inst 28 2 1
                in if is_label_literal op2
                   then (let (offset, st') = symbol_table_get_address current_address op2 st
                         in Inr (set_bitfield inst 5 19 (word_of_int offset), st'))
                   else if is_immediate op2
                   then Inr (set_bitfield inst 5 19 (read_imm_value op2 div 4), st)
                   else Inl (UnknownOperand op2))
          else (let inst = set_bitfield inst 31 1 1;
                    inst = set_bitfield inst 29 1 1;
                    inst = set_bitfield inst 28 1 1;
                    inst = set_bitfield inst 27 1 1;
                    inst = set_bitfield inst 22 1 (of_bool (opcode = ''ldr''))
                in bind_err (read_reg_value (tl op2)) (\<lambda>xn.
                     let inst = set_bitfield inst 5 5 xn
                     in case operands ! 2 of
                          None \<Rightarrow> Inr (set_bitfield inst 24 1 1, st)
                        | Some op3 \<Rightarrow>
                            if is_pre_index op3
                            then (let inst = set_bitfield inst 11 1 1;
                                      inst = set_bitfield inst 10 1 1
                                  in Inr (set_bitfield inst 12 9
                                            (read_imm_value (take (length op3 - 2) op3)), st))
                            else if is_immediate op3 \<and> last op3 \<noteq> CHR '']''
                            then (let inst = set_bitfield inst 10 1 1
                                  in Inr (set_bitfield inst 12 9 (read_imm_value op3), st))
                            else if is_immediate op3
                            then (let inst = set_bitfield inst 24 1 1;
                                      immediate = read_imm_value op3
                                  in if dt_imm_offset_sf inst \<noteq> 0
                                     then Inr (set_bitfield inst 10 12 (immediate div 8), st)
                                     else Inr (set_bitfield inst 10 12 (immediate div 4), st))
                            else if op3 \<noteq> [] \<and> last op3 = CHR '']''
                            then (let inst = set_bitfield inst 21 1 1;
                                      inst = set_bitfield inst 10 6 26
                                  in bind_err (read_reg_value (butlast op3)) (\<lambda>xm.
                                       Inr (set_bitfield inst 16 5 xm, st)))
                            else Inl (UnknownLoadStoreType opcode)))))"

text \<open>
  \<open>assemble_branch\<close>: \<open>op0\<close> (26..28), \<open>id\<close> (30..31); \<open>simm26\<close> (0..25) for \<open>b\<close>;
  \<open>cond\<close> (0..3) and \<open>simm19\<close> (5..23) for \<open>b.cond\<close>; \<open>NIL_3\<close> (16..25) and \<open>xn\<close>
  (5..9) for \<open>br\<close>.
\<close>

definition assemble_branch ::
  "string \<Rightarrow> string option list \<Rightarrow> word32 \<Rightarrow> symbol_table \<Rightarrow> error + word32 \<times> symbol_table" where
  "assemble_branch opcode operands current_address st =
     bind_err (assert_num_opcodes operands 1) (\<lambda>_.
       let op1 = the (operands ! 0);
           inst = set_bitfield 0 26 3 ITP_BRANCH
       in if opcode = ''b''
          then (let inst = set_bitfield inst 30 2 ITP_BRANCH_UNCOND
                in if \<not> is_label_literal op1 then Inl (NotALabel op1)
                   else (let (offset, st') = symbol_table_get_address current_address op1 st
                         in Inr (set_bitfield inst 0 26 (word_of_int offset), st')))
          else if take 2 opcode = ''b.''
          then (let inst = set_bitfield inst 30 2 ITP_BRANCH_COND
                in bind_err (read_branch_cond_type opcode) (\<lambda>cond.
                     let inst = set_bitfield inst 0 4 cond
                     in if \<not> is_label_literal op1 then Inl (NotALabel op1)
                        else (let (offset, st') = symbol_table_get_address current_address op1 st
                              in Inr (set_bitfield inst 5 19 (word_of_int offset), st'))))
          else if opcode = ''br''
          then (let inst = set_bitfield inst 30 2 3;
                    inst = set_bitfield inst 16 10 543
                in bind_err (read_reg_value op1) (\<lambda>xn. Inr (set_bitfield inst 5 5 xn, st)))
          else Inl (UnknownBranchType opcode))"

text \<open>
  \<open>convert_aliases\<close> rewrites the opcode and the operand slots in place; the model returns
  both. \<open>ZERO_REGISTER\<close> is the string \<open>rzr\<close>.
\<close>

definition convert_aliases :: "string \<Rightarrow> string option list \<Rightarrow> string \<times> string option list" where
  "convert_aliases opcode operands =
     (let shifted = (if operands ! 2 \<noteq> None
                     then (operands[4 := operands ! 3])[3 := operands ! 2]
                     else operands);
          operands1 = (if is_opcode opcode [''neg'', ''negs'', ''cmp'', ''cmn'', ''tst'']
                       then shifted else operands)
      in if opcode = ''neg''
         then (''sub'', (operands1[2 := operands1 ! 1])[1 := Some ''rzr''])
         else if opcode = ''negs''
         then (''subs'', (operands1[2 := operands1 ! 1])[1 := Some ''rzr''])
         else if opcode = ''cmn''
         then (''adds'',
               ((operands1[2 := operands1 ! 1])[1 := operands1 ! 0])[0 := Some ''rzr''])
         else if opcode = ''cmp''
         then (''subs'',
               ((operands1[2 := operands1 ! 1])[1 := operands1 ! 0])[0 := Some ''rzr''])
         else if opcode = ''mul'' then (''madd'', operands1[3 := Some ''rzr''])
         else if opcode = ''mneg'' then (''msub'', operands1[3 := Some ''rzr''])
         else if opcode = ''tst''
         then (''ands'',
               ((operands1[2 := operands1 ! 1])[1 := operands1 ! 0])[0 := Some ''rzr''])
         else if opcode = ''mvn''
         then (''orn'', (operands1[2 := operands1 ! 1])[1 := Some ''rzr''])
         else if opcode = ''mov''
         then (''orr'', (operands1[2 := operands1 ! 1])[1 := Some ''rzr''])
         else (opcode, operands1))"

definition determine_and_assemble ::
  "string \<Rightarrow> string option list \<Rightarrow> word32 \<Rightarrow> symbol_table \<Rightarrow> error + word32 \<times> symbol_table" where
  "determine_and_assemble opcode operands current_address st =
     (if is_directive opcode
      then (if \<not> is_int_directive opcode then Inl UnknownDirective
            else bind_err (deref (operands ! 0)) (\<lambda>op1. Inr (read_imm_value op1, st)))
      else if is_opcode opcode [''add'', ''adds'', ''sub'', ''subs'']
      then bind_err (assemble_add_sub opcode operands) (\<lambda>inst. Inr (inst, st))
      else if is_opcode opcode [''madd'', ''msub'']
      then bind_err (assemble_multiply opcode operands) (\<lambda>inst. Inr (inst, st))
      else if is_opcode opcode
                [''and'', ''ands'', ''bic'', ''bics'', ''orn'', ''orr'', ''eor'', ''eon'']
      then bind_err (assemble_logic opcode operands) (\<lambda>inst. Inr (inst, st))
      else if is_opcode opcode [''movn'', ''movz'', ''movk'']
      then bind_err (assemble_wide_move opcode operands) (\<lambda>inst. Inr (inst, st))
      else if is_opcode opcode [''ldr'', ''str'']
      then assemble_load_store opcode operands current_address st
      else if is_opcode opcode [''b'', ''br''] \<or> take 2 opcode = ''b.''
      then assemble_branch opcode operands current_address st
      else Inl (NotImplemented opcode))"

subsection \<open>\<open>decode\<close>: one line of assembly\<close>

text \<open>
  The state of the decoder: the emitted words, the address of the next word and the
  symbol table.
\<close>

record assembler =
  instructions :: "word32 list"
  current_address :: word32
  symbols :: symbol_table

definition decode_init :: assembler where
  "decode_init = \<lparr>instructions = [], current_address = 0, symbols = symbol_table_init\<rparr>"

text \<open>
  \<open>strtok(line, "/")\<close> skips leading slashes, and ends the string at the first slash after
  the token that follows them: the line keeps its leading slashes and that token.
  The calls of \<open>strtok\<close> with the delimiters \<open>", "\<close> then cut the line into its
  non-empty segments.
\<close>

definition strip_comment :: "string \<Rightarrow> string" where
  "strip_comment line =
     takeWhile (\<lambda>c. c = CHR ''/'') line
       @ takeWhile (\<lambda>c. c \<noteq> CHR ''/'') (dropWhile (\<lambda>c. c = CHR ''/'') line)"

fun strtok_all :: "string \<Rightarrow> string \<Rightarrow> string \<Rightarrow> string list" where
  "strtok_all delims segment [] = (if segment = [] then [] else [segment])"
| "strtok_all delims segment (c # cs) =
     (if c \<in> set delims
      then (if segment = [] then strtok_all delims [] cs
            else segment # strtok_all delims [] cs)
      else strtok_all delims (segment @ [c]) cs)"

text \<open>
  \<open>decode\<close>. The line is a C string, so it ends at its first NUL character. A line
  without a segment passes \<open>NULL\<close> to \<open>is_label\<close>, whose assertion fails. The opcode is
  copied to a buffer of \<open>OPCODE_SIZE = 10\<close> characters and the operands to an array of
  \<open>MAX_NUM_OPERANDS = 5\<close> pointers, neither with a bounds check. A sixth operand is
  stored past the end of the array, which C leaves undefined: the model ends such a line
  with an error. An opcode of ten characters or more overruns its buffer; it is none of
  the mnemonics, aliases, directives or branch conditions, and the model, which keeps
  the whole opcode, ends in the error of \<open>determine_and_assemble\<close>.
\<close>

definition decode :: "string \<Rightarrow> assembler \<Rightarrow> error + assembler" where
  "decode assembly_line_input a =
     (let line = strip_comment (takeWhile (\<lambda>c. c \<noteq> CHR 0x00) assembly_line_input)
      in case strtok_all '', '' [] line of
           [] \<Rightarrow> Inl NullString
         | segment # rest \<Rightarrow>
             if is_label segment
             then bind_err
                    (symbol_table_add_label (instructions a) (current_address a)
                       (butlast segment) (symbols a))
                    (\<lambda>(instructions', st'). Inr (a\<lparr>instructions := instructions', symbols := st'\<rparr>))
             else if length rest > 5 then Inl (TooManyOperands (length rest))
             else (let (opcode, operands) =
                         convert_aliases segment (take 5 (map Some rest @ replicate 5 None))
                   in bind_err
                        (determine_and_assemble opcode operands (current_address a) (symbols a))
                        (\<lambda>(inst, st').
                           Inr (a\<lparr>instructions := instructions a @ [inst],
                                  current_address := current_address a + 4,
                                  symbols := st'\<rparr>))))"

section \<open>Assembler: the driver (assemble.c)\<close>

text \<open>
  \<open>for_each_line_in_file\<close> reads the file character by character into \<open>buffer\<close> and calls
  \<open>decode\<close> at every newline that ends a non-empty line, and on a last line without a
  newline. The character is read into a \<open>char\<close> and compared with \<open>EOF\<close>, so the byte
  \<open>0xFF\<close> ends the input as the end of the file does.
\<close>

fun for_each_line_in_file :: "string \<Rightarrow> string \<Rightarrow> assembler \<Rightarrow> error + assembler" where
  "for_each_line_in_file [] buffer a = (if buffer \<noteq> [] then decode buffer a else Inr a)"
| "for_each_line_in_file (c # cs) buffer a =
     (if c = CHR 0xFF then (if buffer \<noteq> [] then decode buffer a else Inr a)
      else if c = CHR 0x0A
      then (if buffer = [] then for_each_line_in_file cs [] a
            else bind_err (decode buffer a) (for_each_line_in_file cs []))
      else for_each_line_in_file cs (buffer @ [c]) a)"

text \<open>
  \<open>assemble\<close>: decode every line, then write every emitted word to the output file, four
  bytes each in the byte order of the machine. The result is the content of the output
  file, or the error that ended the process.
\<close>

definition write_to_binray_file :: "word32 list \<Rightarrow> 8 word list" where
  "write_to_binray_file emitted = concat (map (bytes_of 4) emitted)"

definition assemble :: "string \<Rightarrow> error + 8 word list" where
  "assemble input_file =
     bind_err (for_each_line_in_file input_file [] decode_init)
       (\<lambda>a. Inr (write_to_binray_file (instructions a)))"

section \<open>Unfolding rules for concrete instruction words\<close>

lemmas field_defs = bitfield_def gen_dp_imm_op0_def gen_dp_reg_op0_def gen_dt_op0_2_def
  gen_dt_op0_1_def gen_branch_op0_def imm_arith_rd_def imm_arith_rn_def imm_arith_imm12_def
  imm_arith_sh_def imm_arith_opi_def imm_arith_opc_flag_def imm_arith_opc_op_def
  imm_arith_sf_def imm_wide_rd_def imm_wide_imm16_def imm_wide_hw_def imm_wide_opi_def
  imm_wide_opc_def imm_wide_sf_def reg_arith_rd_def reg_arith_rn_def reg_arith_operand_def
  reg_arith_rm_def reg_arith_shift_def reg_arith_id_def reg_arith_opc_flag_def
  reg_arith_opc_op_def reg_arith_sf_def reg_multiply_M_def dt_load_literal_id_def
  dt_imm_offset_U_def dt_reg_offset_id2_def dt_pre_post_index_I_def dt_pre_post_index_rt_def
  dt_pre_post_index_xn_def dt_pre_post_index_simm9_def dt_pre_post_index_L_def
  dt_pre_post_index_sf_def branch_unconditional_id_def branch_conditional_id_def
  branch_unconditional_simm26_def branch_conditional_simm19_def dt_load_literal_simm19_def

lemmas itp_defs = ITP_DP_IMM_def ITP_IMM_ARITH_def ITP_WIDE_MOVE_def ITP_DP_REG_def
  ITP_REG_MULTIPLY_def ITP_REG_ARITH_def ITP_REG_LOGIC_def ITP_DT_1_def ITP_DT_2_def
  ITP_DT_LOAD_LITERAL_def ITP_DT_IMM_OFFSET_def ITP_DT_REGISTER_OFFSET_def
  ITP_DT_PRE_INDEX_def ITP_BRANCH_def ITP_BRANCH_UNCOND_def ITP_BRANCH_COND_def ITP_MOVN_def
  ITP_MOVZ_def ITP_MOVK_def ITP_LSL_def ITP_LSR_def ITP_ASR_def ITP_ROR_def
  HALT_INSTRUCTION_def

section \<open>Flag semantics of the arithmetic instructions\<close>



lemma msb32_test: "(r AND MSB_32_BIT \<noteq> 0) \<longleftrightarrow> bit (r :: 32 word) 31"
  by (simp only: MSB_32_BIT_def push_bit_of_1 and_exp_eq_0_iff_not_bit not_not)




lemma overflow_flag_never_set:
  assumes "opc_flag \<noteq> 0"
  shows "apply_arithmetic_64 a b rd opc_flag opc_op s = Inr s' \<Longrightarrow>
           \<not> overflow_flag (pstate s')"
    and "apply_arithmetic_32 c d rd opc_flag opc_op s = Inr s' \<Longrightarrow>
           \<not> overflow_flag (pstate s')"
  using assms
  by (auto simp add: apply_arithmetic_64_def apply_arithmetic_32_def Let_def
      set_reg_value_def split: if_splits)

text \<open>
  Claim C1. The overflow flag of a flag-setting add or subtract would be the signed
  overflow of the operation. The test of the source,
  \<open>src > 0 && operand2 > 0 && result < 0\<close>, compares the unsigned \<open>result\<close> with
  zero and is never true (\<open>overflow_flag_never_set\<close>). The instruction \<open>adds x2, x0, x1\<close> (\<open>0xAB010002\<close>) with
  \<open>x0 = 2^63 - 1\<close> and \<open>x1 = 1\<close> overflows as a signed addition, and leaves V clear.
\<close>

theorem adds_signed_overflow_leaves_V_clear:
  "decode_and_execute 0xAB010002
     \<lparr>gen_registers = (\<lambda>_. 0)(0 := 0x7FFFFFFFFFFFFFFF, 1 := 1), program_counter = 0,
      mem = (\<lambda>_. 0), pstate = initial_pstate\<rparr>
   = Inr \<lparr>gen_registers = (\<lambda>_. 0)(0 := 0x7FFFFFFFFFFFFFFF, 1 := 1, 2 := 0x8000000000000000),
          program_counter = 0, mem = (\<lambda>_. 0),
          pstate = \<lparr>negative_flag = True, zero_flag = False, carry_flag = False,
                    overflow_flag = False\<rparr>\<rparr>
   \<and> sint (0x7FFFFFFFFFFFFFFF :: 64 word) + sint (1 :: 64 word)
       \<noteq> sint (0x7FFFFFFFFFFFFFFF + 1 :: 64 word)"
  by (simp add: decode_and_execute_def field_defs itp_defs exec_reg_arithmetic_def
      get_reg_value_64_def NUM_REGISTERS_def bind_err_def apply_shift_64_def
      apply_arithmetic_64_def Let_def set_reg_value_def MSB_64_BIT_def)

section \<open>Memory accessors\<close>

lemma length_bytes_of: "length (bytes_of n w) = n"
  by (induction n arbitrary: w) simp_all

lemma store_bytes_below: "x < a \<Longrightarrow> store_bytes m a bs x = m x"
  by (induction bs arbitrary: m a) simp_all

lemma store_bytes_at: "k < length bs \<Longrightarrow> store_bytes m a bs (a + k) = bs ! k"
proof (induction bs arbitrary: m a k)
  case Nil
  then show ?case by simp
next
  case (Cons b bs)
  show ?case
  proof (cases k)
    case 0
    then show ?thesis by (simp add: store_bytes_below)
  next
    case (Suc j)
    with Cons.prems have "j < length bs" by simp
    then have "store_bytes (m(a := b)) (Suc a) bs (Suc a + j) = bs ! j"
      by (rule Cons.IH)
    with Suc show ?thesis by simp
  qed
qed

lemma load_bytes_store_bytes: "load_bytes (store_bytes m a bs) a (length bs) = bs"
proof (induction bs arbitrary: m a)
  case Nil
  then show ?case by simp
next
  case (Cons b bs)
  then show ?case by (simp add: store_bytes_below)
qed

lemma bytes_of_nth: "k < n \<Longrightarrow> bytes_of n w ! k = ucast (drop_bit (8 * k) w)"
proof (induction n arbitrary: w k)
  case 0
  then show ?case by simp
next
  case (Suc n)
  show ?case
  proof (cases k)
    case 0
    then show ?thesis by simp
  next
    case (Suc j)
    with Suc.prems have "j < n" by simp
    from Suc.IH [OF this, of "drop_bit 8 w"] Suc show ?thesis
      by (simp add: drop_bit_drop_bit add.commute)
  qed
qed

lemma word_of_bytes_bytes_of:
  "(word_of_bytes (bytes_of n w) :: 'a::len word) = take_bit (8 * n) (w :: 'a word)"
proof (induction n arbitrary: w)
  case 0
  then show ?case by simp
next
  case (Suc n)
  show ?case
    apply (simp add: Suc.IH)
    apply (rule bit_eqI)
    apply (auto simp add: bit_simps)
    done
qed

text \<open>
  Claim C7. Each accessor fails exactly when the last byte it would touch lies outside
  the \<open>2^21\<close> bytes of memory: the word accessors succeed if and only if
  \<open>a + 4 \<le> 2^21\<close>, the double-word accessors if and only if \<open>a + 8 \<le> 2^21\<close>
  (the sums taken over the naturals, so a 32-bit address near \<open>2^32\<close> does not wrap), and
  the failure is the fatal out-of-bounds error.
\<close>

theorem memory_accessors_fail_exactly_out_of_range:
  "((\<exists>v. get_word s a = Inr v) \<longleftrightarrow> unat a + 4 \<le> 2 ^ 21)
   \<and> (get_word s a = Inl (WordOutOfBounds a) \<longleftrightarrow> 2 ^ 21 < unat a + 4)
   \<and> ((\<exists>s'. set_word a w s = Inr s') \<longleftrightarrow> unat a + 4 \<le> 2 ^ 21)
   \<and> (set_word a w s = Inl (WordOutOfBounds a) \<longleftrightarrow> 2 ^ 21 < unat a + 4)
   \<and> ((\<exists>v. get_double_word s a = Inr v) \<longleftrightarrow> unat a + 8 \<le> 2 ^ 21)
   \<and> (get_double_word s a = Inl (DoubleWordOutOfBounds a) \<longleftrightarrow> 2 ^ 21 < unat a + 8)
   \<and> ((\<exists>s'. set_double_word a d s = Inr s') \<longleftrightarrow> unat a + 8 \<le> 2 ^ 21)
   \<and> (set_double_word a d s = Inl (DoubleWordOutOfBounds a) \<longleftrightarrow> 2 ^ 21 < unat a + 8)"
  by (auto simp add: get_word_def set_word_def get_double_word_def set_double_word_def
      NUM_OF_MEMORY_ADDRESS_def)

lemma set_get_double_word:
  assumes "unat a \<le> NUM_OF_MEMORY_ADDRESS - 8"
  shows "\<exists>s'. set_double_word a v s = Inr s' \<and> get_double_word s' a = Inr v
           \<and> (\<forall>k<8. mem s' (unat a + k) = ucast (drop_bit (8 * k) v))"
proof -
  have l: "length (bytes_of 8 v) = 8" by (rule length_bytes_of)
  have "load_bytes (store_bytes (mem s) (unat a) (bytes_of 8 v)) (unat a) 8 = bytes_of 8 v"
    using load_bytes_store_bytes [of "mem s" "unat a" "bytes_of 8 v"] by (simp only: l)
  moreover have "(word_of_bytes (bytes_of 8 v) :: 64 word) = v"
    by (simp only: word_of_bytes_bytes_of) (simp add: take_bit_word_eq_self)
  moreover have "\<forall>k<8. store_bytes (mem s) (unat a) (bytes_of 8 v) (unat a + k)
                   = ucast (drop_bit (8 * k) v)"
    using store_bytes_at [of _ "bytes_of 8 v" "mem s" "unat a"]
    by (simp only: l bytes_of_nth) simp
  ultimately show ?thesis
    using assms by (simp add: set_double_word_def get_double_word_def)
qed

lemma set_get_word:
  assumes "unat a + 4 \<le> NUM_OF_MEMORY_ADDRESS"
  shows "\<exists>s'. set_word a w s = Inr s' \<and> get_word s' a = Inr w
           \<and> (\<forall>k<4. mem s' (unat a + k) = ucast (drop_bit (8 * k) w))"
proof -
  have l: "length (bytes_of 4 w) = 4" by (rule length_bytes_of)
  have "load_bytes (store_bytes (mem s) (unat a) (bytes_of 4 w)) (unat a) 4 = bytes_of 4 w"
    using load_bytes_store_bytes [of "mem s" "unat a" "bytes_of 4 w"] by (simp only: l)
  moreover have "(word_of_bytes (bytes_of 4 w) :: 32 word) = w"
    by (simp only: word_of_bytes_bytes_of) (simp add: take_bit_word_eq_self)
  moreover have "\<forall>k<4. store_bytes (mem s) (unat a) (bytes_of 4 w) (unat a + k)
                   = ucast (drop_bit (8 * k) w)"
    using store_bytes_at [of _ "bytes_of 4 w" "mem s" "unat a"]
    by (simp only: l bytes_of_nth) simp
  ultimately show ?thesis
    using assms by (simp add: set_word_def get_word_def NUM_OF_MEMORY_ADDRESS_def)
qed

text \<open>
  Claim C8. At every address \<open>a\<close> with \<open>a \<le> capacity - 8\<close>, aligned or not,
  \<open>set_double_word\<close> followed by \<open>get_double_word\<close> returns the stored value; at every
  \<open>a\<close> with \<open>a + 4 \<le> capacity\<close>, \<open>set_word\<close> of a 64-bit value (converted to the
  32-bit parameter) followed by \<open>get_word\<close> returns its low 32 bits. The layout is
  little-endian: byte \<open>k\<close> of the access holds bits \<open>8k .. 8k+7\<close> of the value.
\<close>

theorem memory_round_trip:
  fixes v :: "64 word"
  shows "(unat a \<le> NUM_OF_MEMORY_ADDRESS - 8 \<longrightarrow>
            (\<exists>s'. set_double_word a v s = Inr s' \<and> get_double_word s' a = Inr v
               \<and> (\<forall>k<8. mem s' (unat a + k) = ucast (drop_bit (8 * k) v))))
       \<and> (unat a + 4 \<le> NUM_OF_MEMORY_ADDRESS \<longrightarrow>
            (\<exists>s'. set_word a (ucast v) s = Inr s'
               \<and> get_word s' a = Inr (ucast (v AND 0xFFFFFFFF))
               \<and> (\<forall>k<4. mem s' (unat a + k) = ucast (drop_bit (8 * k) v))))"
proof (intro conjI impI)
  assume "unat a \<le> NUM_OF_MEMORY_ADDRESS - 8"
  then show "\<exists>s'. set_double_word a v s = Inr s' \<and> get_double_word s' a = Inr v
               \<and> (\<forall>k<8. mem s' (unat a + k) = ucast (drop_bit (8 * k) v))"
    by (rule set_get_double_word)
next
  assume b: "unat a + 4 \<le> NUM_OF_MEMORY_ADDRESS"
  have m: "(0xFFFFFFFF :: 64 word) = mask 32"
    by (simp add: mask_eq_exp_minus_1)
  have low: "(ucast (v AND 0xFFFFFFFF) :: 32 word) = ucast v"
    unfolding m by (rule bit_eqI) (auto simp add: bit_simps)
  have byte: "\<And>k. k < 4 \<Longrightarrow>
      (ucast (drop_bit (8 * k) (ucast v :: 32 word)) :: 8 word) = ucast (drop_bit (8 * k) v)"
    by (rule bit_eqI) (auto simp add: bit_simps)
  from set_get_word [OF b, of "ucast v" s] byte
  show "\<exists>s'. set_word a (ucast v) s = Inr s'
               \<and> get_word s' a = Inr (ucast (v AND 0xFFFFFFFF))
               \<and> (\<forall>k<4. mem s' (unat a + k) = ucast (drop_bit (8 * k) v))"
    by (auto simp add: low)
qed

theorem memory_round_trip_witness:
  "unat (1 :: 32 word) \<le> NUM_OF_MEMORY_ADDRESS - 8
   \<and> unat (1 :: 32 word) + 4 \<le> NUM_OF_MEMORY_ADDRESS
   \<and> (\<exists>s'. set_double_word 1 0x8765432112345678
               \<lparr>gen_registers = (\<lambda>_. 0), program_counter = 0, mem = (\<lambda>_. 0),
                pstate = initial_pstate\<rparr> = Inr s'
          \<and> get_double_word s' 1 = Inr 0x8765432112345678
          \<and> (\<forall>k<8. mem s' (unat (1 :: 32 word) + k)
                      = ucast (drop_bit (8 * k) (0x8765432112345678 :: 64 word))))
   \<and> (\<exists>s'. set_word 1 (ucast (0x8765432112345678 :: 64 word))
               \<lparr>gen_registers = (\<lambda>_. 0), program_counter = 0, mem = (\<lambda>_. 0),
                pstate = initial_pstate\<rparr> = Inr s'
          \<and> get_word s' 1 = Inr (ucast ((0x8765432112345678 :: 64 word) AND 0xFFFFFFFF))
          \<and> (\<forall>k<4. mem s' (unat (1 :: 32 word) + k)
                      = ucast (drop_bit (8 * k) (0x8765432112345678 :: 64 word))))"
proof -
  have h1: "unat (1 :: 32 word) \<le> NUM_OF_MEMORY_ADDRESS - 8"
    by (simp add: NUM_OF_MEMORY_ADDRESS_def)
  have h2: "unat (1 :: 32 word) + 4 \<le> NUM_OF_MEMORY_ADDRESS"
    by (simp add: NUM_OF_MEMORY_ADDRESS_def)
  show ?thesis
    using h1 h2 memory_round_trip [where a = 1 and v = "0x8765432112345678"
      and s = "\<lparr>gen_registers = (\<lambda>_. 0), program_counter = 0, mem = (\<lambda>_. 0),
        pstate = initial_pstate\<rparr>"]
    by blast
qed

section \<open>Post-index store\<close>

lemma bytes_of_8:
  "bytes_of 8 w = [ucast w, ucast (drop_bit 8 w), ucast (drop_bit 16 w),
     ucast (drop_bit 24 w), ucast (drop_bit 32 w), ucast (drop_bit 40 w),
     ucast (drop_bit 48 w), ucast (drop_bit 56 w)]"
  by (simp add: numeral_eq_Suc drop_bit_drop_bit)

text \<open>
  Claim C3. A 32-bit post-index store would write the low 32 bits of \<open>rt\<close>, four bytes,
  at \<open>xn\<close>. The 32-bit store branch of \<open>exec_dt_post_index\<close> calls
  \<open>set_double_word\<close> with the 64-bit register value: \<open>str w0, [x1], #8\<close>
  (\<open>0xB8008420\<close>) with \<open>x0 = 0x1111111122222222\<close>, \<open>x1 = 0x100\<close> and every
  memory byte \<open>0xFF\<close> overwrites the eight bytes \<open>0x100 .. 0x107\<close>, the upper four
  with the upper half of \<open>x0\<close>; \<open>x1\<close> becomes \<open>0x108\<close>.
\<close>

theorem post_index_store_32_writes_double_word:
  "map_sum id (\<lambda>s'. (map (mem s') [0x100, 0x101, 0x102, 0x103, 0x104, 0x105, 0x106, 0x107],
                      gen_registers s' 1))
     (decode_and_execute 0xB8008420
        \<lparr>gen_registers = (\<lambda>_. 0)(0 := 0x1111111122222222, 1 := 0x100), program_counter = 0,
         mem = (\<lambda>_. 0xFF), pstate = initial_pstate\<rparr>)
   = Inr ([0x22, 0x22, 0x22, 0x22, 0x11, 0x11, 0x11, 0x11], 0x108)"
  by (simp add: decode_and_execute_def exec_dt_post_index_def field_defs itp_defs
      get_reg_value_64_def set_reg_value_def set_double_word_def NUM_REGISTERS_def
      NUM_OF_MEMORY_ADDRESS_def bind_err_def sign_extend_def bytes_of_8)

section \<open>End-to-end run: \<open>movz x0, #5\<close> and halt\<close>

lemma load_bytes_4: "load_bytes m a 4 = [m a, m (a + 1), m (a + 2), m (a + 3)]"
  by (simp add: numeral_eq_Suc)

lemma store_bytes_0_nth: "k < length bs \<Longrightarrow> store_bytes m 0 bs k = bs ! k"
  using store_bytes_at [of k bs m 0] by simp

lemma emulate_movz_halt:
  "emulate [0xA0, 0x00, 0x80, 0xD2, 0x00, 0x00, 0x00, 0x8A]
   = Some (Inr \<lparr>gen_registers = (\<lambda>_. 0)(0 := 5), program_counter = 4,
          mem = store_bytes (\<lambda>_. 0) 0 [0xA0, 0x00, 0x80, 0xD2, 0x00, 0x00, 0x00, 0x8A],
          pstate = initial_pstate\<rparr>)"
proof -
  define prog :: "8 word list" where "prog = [0xA0, 0x00, 0x80, 0xD2, 0x00, 0x00, 0x00, 0x8A]"
  define m where "m = store_bytes (\<lambda>_. 0) 0 prog"
  define s0 where "s0 = \<lparr>gen_registers = (\<lambda>_. 0), program_counter = 0, mem = m,
    pstate = initial_pstate\<rparr>"
  define s1 where "s1 = \<lparr>gen_registers = (\<lambda>_. 0)(0 := 5), program_counter = 4, mem = m,
    pstate = initial_pstate\<rparr>"
  have len: "length prog = 8" by (simp add: prog_def)
  have mk: "\<And>k. k < 8 \<Longrightarrow> m k = prog ! k"
    unfolding m_def by (simp add: store_bytes_0_nth len)
  note bytes = mk prog_def
  have init: "init_cpu prog = Inr s0"
    by (simp add: init_cpu_def NUM_OF_MEMORY_ADDRESS_def INSTR_SIZE_def len s0_def m_def)
  have f0: "fetch s0 = Inr 0xD28000A0"
    by (simp add: fetch_def get_word_def NUM_OF_MEMORY_ADDRESS_def s0_def load_bytes_4 bytes)
  have e0: "decode_and_execute 0xD28000A0 s0 = Inr (s0\<lparr>gen_registers := (\<lambda>_. 0)(0 := 5)\<rparr>)"
    by (simp add: decode_and_execute_def exec_wide_move_def field_defs itp_defs
        set_reg_value_def NUM_REGISTERS_def Let_def s0_def)
  have nb: "gen_branch_op0 0xD28000A0 \<noteq> ITP_BRANCH"
    by (simp add: field_defs itp_defs)
  have i1: "increment_pc (s0\<lparr>gen_registers := (\<lambda>_. 0)(0 := 5)\<rparr>) = s1"
    by (simp add: increment_pc_def s0_def s1_def)
  have f1: "fetch s1 = Inr HALT_INSTRUCTION"
    by (simp add: fetch_def get_word_def NUM_OF_MEMORY_ADDRESS_def s1_def load_bytes_4 bytes
        HALT_INSTRUCTION_def)
  have r1: "run_cpu s1 = Some (Inr s1)"
    by (subst run_cpu.simps) (simp add: f1)
  have r0: "run_cpu s0 = run_cpu s1"
    by (subst run_cpu.simps) (simp add: f0 e0 nb i1 HALT_INSTRUCTION_def)
  have "emulate prog = Some (Inr s1)"
    by (simp add: emulate_def init r0 r1)
  then show ?thesis
    by (simp only: prog_def s1_def m_def)
qed

text \<open>
  Claim C4, as stated: the run of \<open>movz x0, #5\<close> (the word \<open>0xD28000A0\<close>) followed
  by the halt word \<open>0x8A000000\<close>, loaded as the little-endian bytes of the binary file,
  ends with all four flags clear and the dump line \<open>PSTATE : ----\<close>. It does not: the
  Z flag is set.
\<close>

theorem movz_halt_pstate_counterexample:
  "map_option (map_sum id (pstate_line \<circ> pstate))
     (emulate [0xA0, 0x00, 0x80, 0xD2, 0x00, 0x00, 0x00, 0x8A])
     \<noteq> Some (Inr (''PSTATE : ----'' @ [CHR 0x0A]))
   \<and> map_option (map_sum id (zero_flag \<circ> pstate))
        (emulate [0xA0, 0x00, 0x80, 0xD2, 0x00, 0x00, 0x00, 0x8A]) = Some (Inr True)"
  by (simp add: emulate_movz_halt pstate_line_def initial_pstate_def)

text \<open>
  Claim C4, amended. The run terminates with \<open>X0 = 5\<close> and \<open>PC = 4\<close>; the flags are
  those of the emulator's initial state, which has Z set and N, C and V clear, and the dump
  line reads \<open>PSTATE : -Z--\<close>.
\<close>

theorem movz_halt_final_state:
  "\<exists>s. emulate [0xA0, 0x00, 0x80, 0xD2, 0x00, 0x00, 0x00, 0x8A] = Some (Inr s)
       \<and> gen_registers s 0 = 5 \<and> program_counter s = 4
       \<and> pstate s = \<lparr>negative_flag = False, zero_flag = True, carry_flag = False,
                      overflow_flag = False\<rparr>
       \<and> pstate_line (pstate s) = ''PSTATE : -Z--'' @ [CHR 0x0A]"
  by (simp add: emulate_movz_halt pstate_line_def initial_pstate_def)

section \<open>The multiply executor\<close>

lemma bitfield_less: "len < 32 \<Longrightarrow> unat (bitfield inst lo len) < 2 ^ len"
  unfolding bitfield_def by (simp add: unsigned_take_bit_eq)

lemma reg_multiply_ra_less: "unat (reg_multiply_ra inst) < 32"
  using bitfield_less [of 5 inst 10] by (simp add: reg_multiply_ra_def)

text \<open>
  Claim C10. \<open>ra\<close> is a 5-bit field, so it is at most 31 for every instruction word and
  the branch for \<open>ra == 32\<close> is never taken: the executor is the one that always reads
  the accumulator through the register file, where index 31 reads as zero.
\<close>

theorem multiply_ra_32_unreachable:
  "unat (reg_multiply_ra inst) \<le> 31
   \<and> reg_multiply_ra inst \<noteq> 32
   \<and> exec_reg_multiply inst s = exec_reg_multiply_via_register_file inst s
   \<and> get_reg_value_64 s 31 = Inr 0 \<and> get_reg_value_32 s 31 = Inr 0"
proof -
  have le: "unat (reg_multiply_ra inst) \<le> 31"
    using reg_multiply_ra_less [of inst] by simp
  then have ne: "reg_multiply_ra inst \<noteq> 32" by auto
  show ?thesis
    using le ne
    by (simp add: exec_reg_multiply_def exec_reg_multiply_via_register_file_def
        get_reg_value_64_def get_reg_value_32_def NUM_REGISTERS_def)
qed

section \<open>Symbol table: back-patching of forward references\<close>


lemma bit_set_bitfield:
  "bit (set_bitfield w lo len v) n \<longleftrightarrow>
     (if lo \<le> n \<and> n < lo + len then n < 32 \<and> bit v (n - lo) else bit w n)"
  by (auto simp add: set_bitfield_def field_mask_def bit_simps dest: bit_imp_le_length)






lemma modify_line_cases:
  "modify_line w R addr =
     (if branch_uncond_encoding w then Inr (set_bitfield w 0 26 ((addr - R) div 4))
      else if branch_cond_encoding w \<or> load_literal_encoding w
        then Inr (set_bitfield w 5 19 ((addr - R) div 4))
      else Inl (NotABranchLiteral w))"
  by (auto simp add: modify_line_def Let_def branch_uncond_encoding_def
      branch_cond_encoding_def load_literal_encoding_def)





lemma modify_lines_frame:
  "modify_lines ins rs addr = Inr ins' \<Longrightarrow>
   length ins' = length ins
   \<and> (\<forall>i. i \<notin> (\<lambda>R. unat (R div 4)) ` set rs \<longrightarrow> ins' ! i = ins ! i)"
proof (induction rs arbitrary: ins)
  case Nil
  then show ?case by simp
next
  case (Cons R rest)
  let ?i = "unat (R div 4)"
  from Cons.prems have inb: "?i < length ins"
    by (simp add: Let_def split: if_splits)
  from Cons.prems inb obtain w1 where
    w1: "modify_line (ins ! ?i) R addr = Inr w1" and
    rest: "modify_lines (ins[?i := w1]) rest addr = Inr ins'"
    by (auto simp add: Let_def bind_err_def split: sum.splits)
  from Cons.IH [OF rest] show ?case by auto
qed








lemma add_label_Inr:
  assumes "symbol_table_add_label ins addr name st = Inr (ins', st')"
  shows "labels st name = None
       \<and> st' = st\<lparr>labels := (labels st)(name \<mapsto> addr)\<rparr>
       \<and> modify_lines ins (case addresses st name of None \<Rightarrow> [] | Some rs \<Rightarrow> rs) addr
           = Inr ins'"
  using assms
  by (auto simp add: symbol_table_add_label_def Let_def bind_err_def
      split: option.splits sum.splits)



lemma modify_line_frame:
  assumes "modify_line w R addr = Inr w'" and "bit w' n \<noteq> bit w n"
  shows "if branch_uncond_encoding w then n < 26 else 5 \<le> n \<and> n < 24"
  using assms
  by (auto simp add: modify_line_cases bit_set_bitfield split: if_splits)

text \<open>
  Claim C9. Back-patching changes the displacement field only: a bit in which the word
  returned by \<open>modify_line\<close> differs from its argument lies in \<open>simm26\<close> (bits 0..25)
  for an unconditional branch and in \<open>simm19\<close> (bits 5..23) otherwise; and
  \<open>symbol_table_add_label\<close> keeps the number of emitted words and every word whose index
  is not that of an address in the label's pending list.
\<close>

theorem back_patch_changes_only_displacement:
  "(modify_line w R addr = Inr w' \<longrightarrow>
      (\<forall>n. bit w' n \<noteq> bit w n \<longrightarrow>
         (if branch_uncond_encoding w then n < 26 else 5 \<le> n \<and> n < 24)))
   \<and> (symbol_table_add_label ins addr' name st = Inr (ins', st') \<longrightarrow>
        length ins' = length ins
        \<and> (\<forall>i. i \<notin> (\<lambda>R. unat (R div 4)) `
                   set (case addresses st name of None \<Rightarrow> [] | Some rs \<Rightarrow> rs) \<longrightarrow>
               ins' ! i = ins ! i))"
proof (intro conjI impI)
  assume "modify_line w R addr = Inr w'"
  then show "\<forall>n. bit w' n \<noteq> bit w n \<longrightarrow>
         (if branch_uncond_encoding w then n < 26 else 5 \<le> n \<and> n < 24)"
    using modify_line_frame by blast
next
  assume ok: "symbol_table_add_label ins addr' name st = Inr (ins', st')"
  from modify_lines_frame add_label_Inr [OF ok]
  show "length ins' = length ins" by blast
next
  assume ok: "symbol_table_add_label ins addr' name st = Inr (ins', st')"
  from modify_lines_frame add_label_Inr [OF ok]
  show "\<forall>i. i \<notin> (\<lambda>R. unat (R div 4)) `
                   set (case addresses st name of None \<Rightarrow> [] | Some rs \<Rightarrow> rs) \<longrightarrow>
               ins' ! i = ins ! i" by blast
qed


lemmas enc_defs = branch_uncond_encoding_def branch_cond_encoding_def load_literal_encoding_def
  gen_branch_op0_def branch_unconditional_id_def branch_conditional_id_def gen_dt_op0_1_def
  gen_dt_op0_2_def dt_load_literal_id_def bitfield_def ITP_BRANCH_def ITP_BRANCH_UNCOND_def
  ITP_BRANCH_COND_def ITP_DT_1_def ITP_DT_2_def ITP_DT_LOAD_LITERAL_def

lemma modify_line_b_example: "modify_line 0x14000000 0 8 = Inr 0x14000002"
  by (simp add: modify_line_def enc_defs set_bitfield_def field_mask_def Let_def mask_eq_exp_minus_1)

lemma add_label_example:
  "symbol_table_add_label [0x14000000, 0xD28000E0] 8 ''end''
     \<lparr>labels = Map.empty, addresses = [''end'' \<mapsto> [0]]\<rparr>
   = Inr ([0x14000002, 0xD28000E0],
          \<lparr>labels = [''end'' \<mapsto> 8], addresses = [''end'' \<mapsto> [0]]\<rparr>)"
  by (simp add: symbol_table_add_label_def Let_def bind_err_def modify_line_b_example)

lemma add_label_bad_example:
  "symbol_table_add_label [0xD28000E0] 4 ''end''
     \<lparr>labels = Map.empty, addresses = [''end'' \<mapsto> [0]]\<rparr>
   = Inl (NotABranchLiteral 0xD28000E0)"
  by (simp add: symbol_table_add_label_def Let_def bind_err_def modify_line_def enc_defs)



theorem back_patch_changes_only_displacement_witness:
  "modify_line 0x14000000 0 8 = Inr 0x14000002
   \<and> branch_uncond_encoding 0x14000000
   \<and> (\<nexists>n. bit (0x14000002 :: 32 word) n \<noteq> bit (0x14000000 :: 32 word) n \<and> \<not> n < 26)
   \<and> symbol_table_add_label [0x14000000, 0xD28000E0] 8 ''end''
        \<lparr>labels = Map.empty, addresses = [''end'' \<mapsto> [0]]\<rparr>
      = Inr ([0x14000002, 0xD28000E0],
             \<lparr>labels = [''end'' \<mapsto> 8], addresses = [''end'' \<mapsto> [0]]\<rparr>)
   \<and> length [0x14000002, 0xD28000E0 :: 32 word] = length [0x14000000, 0xD28000E0 :: 32 word]
   \<and> [0x14000002, 0xD28000E0 :: 32 word] ! 1 = [0x14000000, 0xD28000E0] ! 1"
proof -
  have u: "branch_uncond_encoding 0x14000000" by (simp add: enc_defs)
  note inst = back_patch_changes_only_displacement [where w = "0x14000000" and R = 0
      and addr = 8 and w' = "0x14000002" and ins = "[0x14000000, 0xD28000E0]" and addr' = 8
      and name = "''end''" and st = "\<lparr>labels = Map.empty, addresses = [''end'' \<mapsto> [0]]\<rparr>"
      and ins' = "[0x14000002, 0xD28000E0]"
      and st' = "\<lparr>labels = [''end'' \<mapsto> 8], addresses = [''end'' \<mapsto> [0]]\<rparr>"]
  note c1 = inst [THEN conjunct1, THEN mp, OF modify_line_b_example]
  have bits: "\<forall>n. bit (0x14000002 :: 32 word) n \<noteq> bit (0x14000000 :: 32 word) n \<longrightarrow> n < 26"
    using c1 u by (simp only: if_True)
  then have nb: "\<nexists>n. bit (0x14000002 :: 32 word) n \<noteq> bit (0x14000000 :: 32 word) n \<and> \<not> n < 26"
    by blast
  have l: "length [0x14000002, 0xD28000E0 :: 32 word] = length [0x14000000, 0xD28000E0 :: 32 word]"
    by simp
  have n1: "[0x14000002, 0xD28000E0 :: 32 word] ! 1 = [0x14000000, 0xD28000E0] ! 1"
    by simp
  from modify_line_b_example u nb add_label_example l n1 show ?thesis
    by (intro conjI)
qed

section \<open>Assembler: labels left unresolved at the end of the input\<close>

lemma label_literal_chars:
  assumes "is_label_literal L"
  shows "L \<noteq> []" and "\<forall>c\<in>set L. c \<noteq> CHR 0x00 \<and> c \<noteq> CHR ''/'' \<and> c \<noteq> CHR '' ''
           \<and> c \<noteq> CHR '','' \<and> c \<noteq> CHR 0x0A \<and> c \<noteq> CHR 0xFF \<and> c \<noteq> CHR '':''"
proof -
  from assms show "L \<noteq> []"
    by (auto simp add: is_label_literal_def split: list.splits)
  have a: "c \<noteq> CHR 0x00 \<and> c \<noteq> CHR ''/'' \<and> c \<noteq> CHR '' ''
           \<and> c \<noteq> CHR '','' \<and> c \<noteq> CHR 0x0A \<and> c \<noteq> CHR 0xFF \<and> c \<noteq> CHR '':''"
    if "isalnum c \<or> c = CHR ''$'' \<or> c = CHR ''_'' \<or> c = CHR ''.''" for c
    using that by (auto simp add: isalnum_def isalpha_def Let_def)
  from assms obtain c cs where L: "L = c # cs"
    and c: "isalpha c \<or> c = CHR ''_'' \<or> c = CHR ''.''"
    and cs: "list_all (\<lambda>c. isalnum c \<or> c = CHR ''$'' \<or> c = CHR ''_'' \<or> c = CHR ''.'') cs"
    by (auto simp add: is_label_literal_def split: list.splits)
  from c have "isalnum c \<or> c = CHR ''$'' \<or> c = CHR ''_'' \<or> c = CHR ''.''"
    by (auto simp add: isalnum_def)
  with cs L a show "\<forall>c\<in>set L. c \<noteq> CHR 0x00 \<and> c \<noteq> CHR ''/'' \<and> c \<noteq> CHR '' ''
           \<and> c \<noteq> CHR '','' \<and> c \<noteq> CHR 0x0A \<and> c \<noteq> CHR 0xFF \<and> c \<noteq> CHR '':''"
    by (auto simp add: list_all_iff)
qed

lemma strtok_all_no_delims:
  "\<forall>c\<in>set s. c \<notin> set delims \<Longrightarrow>
   strtok_all delims segment s = (if segment @ s = [] then [] else [segment @ s])"
  by (induction s arbitrary: segment) auto

lemma for_each_line_single:
  "\<forall>c\<in>set s. c \<noteq> CHR 0x0A \<and> c \<noteq> CHR 0xFF \<Longrightarrow>
   for_each_line_in_file s buffer a = (if buffer @ s \<noteq> [] then decode (buffer @ s) a else Inr a)"
  by (induction s arbitrary: buffer) auto

lemma decode_b_label:
  assumes "is_label_literal L"
  shows "decode (''b '' @ L) decode_init =
     Inr \<lparr>instructions = [0x14000000], current_address = 4,
          symbols = \<lparr>labels = Map.empty, addresses = [L \<mapsto> [0]]\<rparr>\<rparr>"
proof -
  note ch = label_literal_chars [OF assms]
  have nul: "takeWhile (\<lambda>c. c \<noteq> CHR 0x00) (''b '' @ L) = ''b '' @ L"
    using ch(2) by (simp add: takeWhile_eq_all_conv)
  have strip: "strip_comment (''b '' @ L) = ''b '' @ L"
    using ch(2) by (simp add: strip_comment_def takeWhile_eq_all_conv)
  have "strtok_all '', '' [] L = [L]"
    using ch strtok_all_no_delims [of L "'', ''" "[]"] by auto
  then have toks: "strtok_all '', '' [] (''b '' @ L) = [''b'', L]"
    by simp
  have ops: "take 5 (map Some [L] @ replicate 5 None) = [Some L, None, None, None, None]"
    by (simp add: numeral_eq_Suc)
  have al: "convert_aliases ''b'' [Some L, None, None, None, None]
      = (''b'', [Some L, None, None, None, None])"
    by (simp add: convert_aliases_def is_opcode_def)
  have enc: "set_bitfield (set_bitfield (set_bitfield 0 26 3 ITP_BRANCH) 30 2 ITP_BRANCH_UNCOND)
      0 26 (word_of_int 0) = 0x14000000"
    by (simp add: set_bitfield_def field_mask_def ITP_BRANCH_def ITP_BRANCH_UNCOND_def
        mask_eq_exp_minus_1)
  have br: "assemble_branch ''b'' [Some L, None, None, None, None] 0 symbol_table_init
      = Inr (0x14000000, \<lparr>labels = Map.empty, addresses = [L \<mapsto> [0]]\<rparr>)"
    using assms enc
    by (simp add: assemble_branch_def assert_num_opcodes_def bind_err_def Let_def
        symbol_table_get_address_def symbol_table_init_def)
  have det: "determine_and_assemble ''b'' [Some L, None, None, None, None] 0 symbol_table_init
      = Inr (0x14000000, \<lparr>labels = Map.empty, addresses = [L \<mapsto> [0]]\<rparr>)"
    by (simp add: determine_and_assemble_def is_directive_def is_opcode_def br)
  show ?thesis
    by (simp only: decode_def nul strip toks Let_def list.case ops al)
      (simp add: is_label_def decode_init_def det bind_err_def)
qed

lemma bytes_of_4:
  "bytes_of 4 w = [ucast w, ucast (drop_bit 8 w), ucast (drop_bit 16 w), ucast (drop_bit 24 w)]"
  by (simp add: numeral_eq_Suc drop_bit_drop_bit)

lemma assemble_b_label:
  assumes "is_label_literal L"
  shows "for_each_line_in_file (''b '' @ L) [] decode_init =
           Inr \<lparr>instructions = [0x14000000], current_address = 4,
                symbols = \<lparr>labels = Map.empty, addresses = [L \<mapsto> [0]]\<rparr>\<rparr>"
    and "assemble (''b '' @ L) = Inr [0x00, 0x00, 0x00, 0x14]"
proof -
  from label_literal_chars [OF assms]
  have "\<forall>c\<in>set (''b '' @ L). c \<noteq> CHR 0x0A \<and> c \<noteq> CHR 0xFF" by simp
  from for_each_line_single [OF this, of "[]" decode_init]
  have "for_each_line_in_file (''b '' @ L) [] decode_init = decode (''b '' @ L) decode_init"
    by simp
  then show 1: "for_each_line_in_file (''b '' @ L) [] decode_init =
           Inr \<lparr>instructions = [0x14000000], current_address = 4,
                symbols = \<lparr>labels = Map.empty, addresses = [L \<mapsto> [0]]\<rparr>\<rparr>"
    by (simp only: decode_b_label [OF assms])
  show "assemble (''b '' @ L) = Inr [0x00, 0x00, 0x00, 0x14]"
    by (simp only: assemble_def 1) (simp add: bind_err_def write_to_binray_file_def bytes_of_4)
qed

lemma is_label_literal_end: "is_label_literal ''end''"
  by (simp add: is_label_literal_def isalpha_def isalnum_def Let_def)

text \<open>
  Claim C2, as stated: an input that references a label it never defines makes the
  assembler fail. The one-line input \<open>b end\<close> leaves \<open>end\<close> in the pending map, and
  the assembler returns the output file with the placeholder word \<open>0x14000000\<close>.
\<close>

theorem undefined_label_is_assembled_counterexample:
  "for_each_line_in_file ''b end'' [] decode_init =
     Inr \<lparr>instructions = [0x14000000], current_address = 4,
          symbols = \<lparr>labels = Map.empty, addresses = [''end'' \<mapsto> [0]]\<rparr>\<rparr>
   \<and> assemble ''b end'' = Inr [0x00, 0x00, 0x00, 0x14]"
  using assemble_b_label [OF is_label_literal_end] by simp

text \<open>
  Claim C2, amended. The assembler has no end-of-pass validation: whenever every line of
  the input decodes, it writes the emitted words to the output file and succeeds,
  whatever is left in the pending map. In particular, for every label name \<open>L\<close> the
  one-line input \<open>b L\<close> is assembled to the single word \<open>0x14000000\<close>, the branch with a
  zero placeholder displacement, with \<open>L\<close> still pending and undefined.
\<close>

theorem assemble_has_no_end_of_pass_check:
  "(for_each_line_in_file input_file [] decode_init = Inr a \<longrightarrow>
      assemble input_file = Inr (write_to_binray_file (instructions a)))
   \<and> (is_label_literal L \<longrightarrow>
        for_each_line_in_file (''b '' @ L) [] decode_init =
          Inr \<lparr>instructions = [0x14000000], current_address = 4,
               symbols = \<lparr>labels = Map.empty, addresses = [L \<mapsto> [0]]\<rparr>\<rparr>
        \<and> assemble (''b '' @ L) = Inr [0x00, 0x00, 0x00, 0x14])"
proof (intro conjI impI)
  assume "for_each_line_in_file input_file [] decode_init = Inr a"
  then show "assemble input_file = Inr (write_to_binray_file (instructions a))"
    by (simp add: assemble_def bind_err_def)
next
  assume "is_label_literal L"
  then show "for_each_line_in_file (''b '' @ L) [] decode_init =
          Inr \<lparr>instructions = [0x14000000], current_address = 4,
               symbols = \<lparr>labels = Map.empty, addresses = [L \<mapsto> [0]]\<rparr>\<rparr>"
    by (rule assemble_b_label)
next
  assume "is_label_literal L"
  then show "assemble (''b '' @ L) = Inr [0x00, 0x00, 0x00, 0x14]"
    by (rule assemble_b_label)
qed

theorem assemble_has_no_end_of_pass_check_witness:
  "is_label_literal ''end''
   \<and> for_each_line_in_file ''b end'' [] decode_init =
       Inr \<lparr>instructions = [0x14000000], current_address = 4,
            symbols = \<lparr>labels = Map.empty, addresses = [''end'' \<mapsto> [0]]\<rparr>\<rparr>
   \<and> assemble ''b end'' = Inr (write_to_binray_file [0x14000000])
   \<and> assemble ''b end'' = Inr [0x00, 0x00, 0x00, 0x14]"
proof -
  note inst = assemble_has_no_end_of_pass_check [where L = "''end''"
      and input_file = "''b end''"
      and a = "\<lparr>instructions = [0x14000000], current_address = 4,
            symbols = \<lparr>labels = Map.empty, addresses = [''end'' \<mapsto> [0]]\<rparr>\<rparr>"]
  note second = inst [THEN conjunct2, THEN mp, OF is_label_literal_end]
  from second have run: "for_each_line_in_file ''b end'' [] decode_init =
       Inr \<lparr>instructions = [0x14000000], current_address = 4,
            symbols = \<lparr>labels = Map.empty, addresses = [''end'' \<mapsto> [0]]\<rparr>\<rparr>"
    and out: "assemble ''b end'' = Inr [0x00, 0x00, 0x00, 0x14]"
    by simp_all
  from inst [THEN conjunct1, THEN mp, OF run]
  have "assemble ''b end'' = Inr (write_to_binray_file [0x14000000])" by simp
  with is_label_literal_end run out show ?thesis by (intro conjI)
qed

end
